theory Spec2Isabelle
  imports Complex_Main "HOL-Library.Word"
begin

text \<open>
  A model of the analysis task \<open>TaskPolarisationCharmHadrons\<close> of
  \<open>PWGHF/D2H/Tasks/taskCharmPolarisation.cxx\<close>: its start-up checks, the kinematic
  variables of a D* and of a \<open>\<Lambda>c \<rightarrow> pK\<pi>\<close> candidate, the rotational background, the four
  cosines in the rest frame of the candidate, and the fills of the four histograms.
\<close>

section \<open>Floating-point values\<close>

text \<open>
  The task computes in C++ \<open>float\<close> and \<open>double\<close>. A floating-point value is modelled as
  either a finite value, taken as an exact real number (rounding and overflow are not
  modelled), or \<open>NonFinite\<close>, which stands for NaN and the infinities. An operation with a
  non-finite operand is non-finite, a division by zero is non-finite (0/0 is NaN, x/0 is
  an infinity), and so is the square root of a negative number. No operation raises.
\<close>

datatype cfloat = Finite real | NonFinite

instantiation cfloat :: "{plus, minus, uminus, times, inverse}"
begin

fun plus_cfloat :: "cfloat \<Rightarrow> cfloat \<Rightarrow> cfloat" where
  "plus_cfloat (Finite a) (Finite b) = Finite (a + b)"
| "plus_cfloat _ _ = NonFinite"

fun minus_cfloat :: "cfloat \<Rightarrow> cfloat \<Rightarrow> cfloat" where
  "minus_cfloat (Finite a) (Finite b) = Finite (a - b)"
| "minus_cfloat _ _ = NonFinite"

fun uminus_cfloat :: "cfloat \<Rightarrow> cfloat" where
  "uminus_cfloat (Finite a) = Finite (- a)"
| "uminus_cfloat NonFinite = NonFinite"

fun times_cfloat :: "cfloat \<Rightarrow> cfloat \<Rightarrow> cfloat" where
  "times_cfloat (Finite a) (Finite b) = Finite (a * b)"
| "times_cfloat _ _ = NonFinite"

fun divide_cfloat :: "cfloat \<Rightarrow> cfloat \<Rightarrow> cfloat" where
  "divide_cfloat (Finite a) (Finite b) = (if b = 0 then NonFinite else Finite (a / b))"
| "divide_cfloat _ _ = NonFinite"

definition inverse_cfloat :: "cfloat \<Rightarrow> cfloat" where
  "inverse_cfloat (x::cfloat) = divide (Finite 1) x"

instance ..

end

text \<open>\<open>std::sqrt\<close>, \<open>std::cos\<close>, \<open>std::sin\<close> and the conversion of an \<open>int\<close>.\<close>

fun fsqrt :: "cfloat \<Rightarrow> cfloat" where
  "fsqrt (Finite a) = (if a < 0 then NonFinite else Finite (sqrt a))"
| "fsqrt NonFinite = NonFinite"

fun fcos :: "cfloat \<Rightarrow> cfloat" where
  "fcos (Finite a) = Finite (cos a)"
| "fcos NonFinite = NonFinite"

fun fsin :: "cfloat \<Rightarrow> cfloat" where
  "fsin (Finite a) = Finite (sin a)"
| "fsin NonFinite = NonFinite"

definition ofInt :: "int \<Rightarrow> cfloat" where
  "ofInt k = Finite (real_of_int k)"

text \<open>\<open>constants::math::TwoPI\<close> and \<open>constants::math::PI\<close>.\<close>

definition TwoPI :: real where
  "TwoPI = 2 * pi"

definition PI :: real where
  "PI = pi"

section \<open>Configuration and start-up (\<open>init\<close>)\<close>

text \<open>
  The \<open>Configurable\<close>s of the task that the analysis reads, and the four process
  switches declared by \<open>PROCESS_SWITCH\<close>. \<open>nBkgRotations\<close> is a C++ \<open>int\<close> on which \<open>init\<close>
  computes \<open>nBkgRotations + 1\<close>: it is a 32-bit word, read as a signed number by \<open>sint\<close>,
  and the addition wraps around at 2147483647 as the machine addition does.
  \<open>selectionFlagLcToPKPi\<close> is an \<open>int\<close> that is only compared; it is an integer.
\<close>

record Config =
  doprocessDstar :: bool
  doprocessDstarWithMl :: bool
  doprocessLcToPKPi :: bool
  doprocessLcToPKPiWithMl :: bool
  selectionFlagDstarToD0Pi :: bool
  selectionFlagLcToPKPi :: int
  nBkgRotations :: "32 word"
  activateTHnSparseCosThStarHelicity :: bool
  activateTHnSparseCosThStarProduction :: bool
  activateTHnSparseCosThStarBeam :: bool
  activateTHnSparseCosThStarRandom :: bool

text \<open>
  The particle masses of \<open>o2::constants::physics\<close> are declared outside the task; they are
  a parameter of the model.
\<close>

record PhysicsConstants =
  MassPiPlus :: real
  MassProton :: real
  MassKaonCharged :: real
  MassDStar :: real
  MassLambdaCPlus :: real

text \<open>
  The data members of \<open>TaskPolarisationCharmHadrons\<close> that \<open>init\<close> sets. The histograms
  that \<open>init\<close> adds to the registry are not part of the model: a fill names its histogram.
\<close>

record Task =
  massPi :: real
  massProton :: real
  massKaon :: real
  massDstar :: real
  massLc :: real
  bkgRotationAngleStep :: cfloat
  nMassHypos :: nat

text \<open>The enumerators of \<open>MassHyposLcToPKPi\<close>, compared with the \<open>uint8_t\<close> loop counter.\<close>

definition PKPi :: nat where
  "PKPi = 0"

definition PiKP :: nat where
  "PiKP = 1"

definition NMassHypoLcToPKPi :: nat where
  "NMassHypoLcToPKPi = 2"

text \<open>\<open>LOGP(fatal, ...)\<close> ends the program; the three messages of \<open>init\<close>.\<close>

datatype fatal =
  OnlyOneProcessFunction
| NoProcessFunction
| NoOutputTHnSparses

text \<open>\<open>std::accumulate\<close> over an array of flags converted to \<open>int\<close>.\<close>

definition accumulate :: "bool list \<Rightarrow> int" where
  "accumulate flags = sum_list (map (\<lambda>b. if b then 1 else 0) flags)"

definition init :: "PhysicsConstants \<Rightarrow> Config \<Rightarrow> fatal + Task" where
  "init phys cfg =
    (let processes = [doprocessDstar cfg, doprocessDstarWithMl cfg,
                      doprocessLcToPKPi cfg, doprocessLcToPKPiWithMl cfg];
         nProcesses = accumulate processes;
         sparses = [activateTHnSparseCosThStarHelicity cfg, activateTHnSparseCosThStarProduction cfg,
                    activateTHnSparseCosThStarBeam cfg, activateTHnSparseCosThStarRandom cfg]
     in if nProcesses > 1 then Inl OnlyOneProcessFunction
        else if nProcesses = 0 then Inl NoProcessFunction
        else if accumulate sparses = 0 then Inl NoOutputTHnSparses
        else Inr \<lparr> massPi = MassPiPlus phys,
                   massProton = MassProton phys,
                   massKaon = MassKaonCharged phys,
                   massDstar = MassDStar phys,
                   massLc = MassLambdaCPlus phys,
                   bkgRotationAngleStep = Finite TwoPI / ofInt (sint (nBkgRotations cfg + 1)),
                   nMassHypos = (if doprocessLcToPKPi cfg \<or> doprocessLcToPKPiWithMl cfg
                                 then NMassHypoLcToPKPi else 1) \<rparr>)"

text \<open>The angle of a rotation: \<open>bkgRotAngle = bkgRotationAngleStep * bkgRotationId\<close>.\<close>

definition bkgRotAngle :: "Task \<Rightarrow> int \<Rightarrow> cfloat" where
  "bkgRotAngle t bkgRotationId = bkgRotationAngleStep t * ofInt bkgRotationId"

section \<open>Vectors and the boost to the rest frame\<close>

text \<open>\<open>std::array<float, 3>\<close> and \<open>ROOT::Math::XYZVector\<close>: three components.\<close>

type_synonym XYZVector = "cfloat \<times> cfloat \<times> cfloat"

fun comp0 :: "XYZVector \<Rightarrow> cfloat" where
  "comp0 (x, y, z) = x"

fun comp1 :: "XYZVector \<Rightarrow> cfloat" where
  "comp1 (x, y, z) = y"

fun comp2 :: "XYZVector \<Rightarrow> cfloat" where
  "comp2 (x, y, z) = z"

fun Dot :: "XYZVector \<Rightarrow> XYZVector \<Rightarrow> cfloat" where
  "Dot (ax, ay, az) (bx, by, bz) = ax * bx + ay * by + az * bz"

fun Mag2 :: "XYZVector \<Rightarrow> cfloat" where
  "Mag2 (x, y, z) = x * x + y * y + z * z"

text \<open>\<open>ROOT::Math::PxPyPzMVector\<close>: three momentum components and a mass.\<close>

type_synonym PxPyPzMVector = "cfloat \<times> cfloat \<times> cfloat \<times> cfloat"

fun Vect :: "PxPyPzMVector \<Rightarrow> XYZVector" where
  "Vect (x, y, z, m) = (x, y, z)"

text \<open>
  Modelled from the spec: \<open>ROOT::Math::Boost\<close> and \<open>BoostToCM\<close> are library code that is
  not under src/. The spec has "the standard relativistic boost defined by the parent's
  velocity": the energy of a four-vector is \<open>sqrt (p\<^sup>2 + m\<^sup>2)\<close>, the velocity taking it to
  its rest frame is \<open>- p / E\<close>, and the boost with velocity \<open>\<beta>\<close> and
  \<open>\<gamma> = 1 / sqrt (1 - \<beta>\<^sup>2)\<close> maps the momentum \<open>p\<close> of a four-vector of energy \<open>t\<close> to
  \<open>p + (\<gamma>\<^sup>2 / (1 + \<gamma>)) (\<beta> \<cdot> p) \<beta> + \<gamma> t \<beta>\<close>. \<open>Boost\<close> returns the momentum part of the
  boosted four-vector, which is all the task reads (\<open>fourVecDauCM.Vect()\<close>).
\<close>

fun energy :: "PxPyPzMVector \<Rightarrow> cfloat" where
  "energy (x, y, z, m) = fsqrt (x * x + y * y + z * z + m * m)"

fun BoostToCM :: "PxPyPzMVector \<Rightarrow> XYZVector" where
  "BoostToCM (x, y, z, m) =
    (let e = energy (x, y, z, m) in (- x / e, - y / e, - z / e))"

fun Boost :: "XYZVector \<Rightarrow> PxPyPzMVector \<Rightarrow> XYZVector" where
  "Boost (bx, by, bz) (x, y, z, m) =
    (let t = energy (x, y, z, m);
         bp2 = bx * bx + by * by + bz * bz;
         gamma = Finite 1 / fsqrt (Finite 1 - bp2);
         bgamma = gamma * gamma / (Finite 1 + gamma)
     in ((Finite 1 + bgamma * bx * bx) * x + bgamma * bx * by * y + bgamma * bx * bz * z + gamma * bx * t,
         bgamma * bx * by * x + (Finite 1 + bgamma * by * by) * y + bgamma * by * bz * z + gamma * by * t,
         bgamma * bx * bz * x + bgamma * by * bz * y + (Finite 1 + bgamma * bz * bz) * z + gamma * bz * t))"

section \<open>Candidates\<close>

text \<open>
  The columns of a candidate that the task reads. \<open>yDstar\<close> is the column method
  \<open>candidate.y(mass)\<close> of a D* candidate. The columns hold finite values.
\<close>

record CandDstar =
  pxSoftPi :: real
  pySoftPi :: real
  pzSoftPi :: real
  pxDstar :: real
  pyDstar :: real
  pzDstar :: real
  signSoftPi :: int
  invMassDstar :: real
  invMassAntiDstar :: real
  invMassD0 :: real
  invMassD0Bar :: real
  yDstar :: "real \<Rightarrow> real"
  isSelDstarToD0Pi :: bool

text \<open>
  A \<open>\<Lambda>c\<close> candidate; the two probability vectors are the columns of \<open>HfMlLcToPKPi\<close>,
  joined to the candidate only for the process function with ML, the only one to read
  them.
\<close>

record CandLcToPKPi =
  pxProng0 :: real
  pyProng0 :: real
  pzProng0 :: real
  pxProng1 :: real
  pyProng1 :: real
  pzProng1 :: real
  pxProng2 :: real
  pyProng2 :: real
  pzProng2 :: real
  px :: real
  py :: real
  pz :: real
  isSelLcToPKPi :: int
  isSelLcToPiKP :: int
  mlProbLcToPKPi :: "real list"
  mlProbLcToPiKP :: "real list"

text \<open>
  The helpers of the repository that are declared outside the task (\<open>HfHelper\<close>,
  \<open>RecoDecay\<close>) are a parameter of the model: the invariant mass of the unrotated
  candidate under each hypothesis, the rapidity of a momentum with a mass, and the
  invariant mass of a list of momenta with a list of masses.
\<close>

record Helpers =
  invMassLcToPKPi :: "CandLcToPKPi \<Rightarrow> real"
  invMassLcToPiKP :: "CandLcToPKPi \<Rightarrow> real"
  RecoDecay_y :: "XYZVector \<Rightarrow> real \<Rightarrow> cfloat"
  RecoDecay_m :: "XYZVector list \<Rightarrow> real list \<Rightarrow> cfloat"

text \<open>The two \<open>Filter\<close>s, which the framework applies before a process function is called.\<close>

definition filterSelectDstarCandidates :: "Config \<Rightarrow> CandDstar \<Rightarrow> bool" where
  "filterSelectDstarCandidates cfg candidate =
    (isSelDstarToD0Pi candidate = selectionFlagDstarToD0Pi cfg)"

definition filterSelectLcToPKPiCandidates :: "Config \<Rightarrow> CandLcToPKPi \<Rightarrow> bool" where
  "filterSelectLcToPKPiCandidates cfg candidate =
    (isSelLcToPKPi candidate \<ge> selectionFlagLcToPKPi cfg
     \<or> isSelLcToPiKP candidate \<ge> selectionFlagLcToPKPi cfg)"

section \<open>The kinematic variables of one evaluation\<close>

text \<open>
  The local variables of the body of the loop over mass hypotheses in
  \<open>runPolarisationAnalysis\<close>, once the channel's branch has set them.
\<close>

record Kinematics =
  pxDau :: cfloat
  pyDau :: cfloat
  pzDau :: cfloat
  pxCharmHad :: cfloat
  pyCharmHad :: cfloat
  pzCharmHad :: cfloat
  massDau :: cfloat
  invMassCharmHad :: cfloat
  invMassCharmHadForSparse :: cfloat
  rapidity :: cfloat
  outputMl :: "cfloat list"
  isRotatedCandidate :: int

text \<open>The variable definitions at the head of the loop body (lines 229 to 234).\<close>

definition variableDefinition :: Kinematics where
  "variableDefinition =
    \<lparr> pxDau = Finite (- 1000), pyDau = Finite (- 1000), pzDau = Finite (- 1000),
      pxCharmHad = Finite (- 1000), pyCharmHad = Finite (- 1000), pzCharmHad = Finite (- 1000),
      massDau = Finite 0, invMassCharmHad = Finite 0, invMassCharmHadForSparse = Finite 0,
      rapidity = Finite (- 999),
      outputMl = [Finite (- 1), Finite (- 1), Finite (- 1)],
      isRotatedCandidate = 0 \<rparr>"

text \<open>
  The branch of the D* channel (lines 236 to 254). With ML it would store \<open>-1\<close> in the
  three scores again, which is their initial value.
\<close>

definition kinematicsDstar :: "Task \<Rightarrow> CandDstar \<Rightarrow> Kinematics" where
  "kinematicsDstar t candidate =
    (let invMass = (if signSoftPi candidate > 0 then Finite (invMassDstar candidate)
                    else Finite (invMassAntiDstar candidate))
     in variableDefinition
          \<lparr> pxDau := Finite (pxSoftPi candidate),
            pyDau := Finite (pySoftPi candidate),
            pzDau := Finite (pzSoftPi candidate),
            pxCharmHad := Finite (pxDstar candidate),
            pyCharmHad := Finite (pyDstar candidate),
            pzCharmHad := Finite (pzDstar candidate),
            massDau := Finite (massPi t),
            invMassCharmHad := invMass,
            invMassCharmHadForSparse :=
              (if signSoftPi candidate > 0 then invMass - Finite (invMassD0 candidate)
               else invMass - Finite (invMassD0Bar candidate)),
            rapidity := Finite (yDstar candidate (massDstar t)) \<rparr>)"

text \<open>
  The second prong with its transverse momentum rotated by the angle of the rotation
  (line 263).
\<close>

definition threeVecLcRotatedProng1 :: "Task \<Rightarrow> CandLcToPKPi \<Rightarrow> int \<Rightarrow> XYZVector" where
  "threeVecLcRotatedProng1 t candidate bkgRotationId =
    (let bkgRotAngle = bkgRotAngle t bkgRotationId
     in (Finite (pxProng1 candidate) * fcos bkgRotAngle - Finite (pyProng1 candidate) * fsin bkgRotAngle,
         Finite (pxProng1 candidate) * fsin bkgRotAngle + Finite (pyProng1 candidate) * fcos bkgRotAngle,
         Finite (pzProng1 candidate)))"

text \<open>
  The ML scores: the initial \<open>{-1, -1, -1}\<close>, overwritten only with ML and a probability
  vector of size 3.
\<close>

definition mlScores :: "bool \<Rightarrow> real list \<Rightarrow> cfloat list" where
  "mlScores withMl mlProb =
    (if withMl \<and> length mlProb = 3
     then [Finite (mlProb ! 0), Finite (mlProb ! 1), Finite (mlProb ! 2)]
     else [Finite (- 1), Finite (- 1), Finite (- 1)])"

text \<open>
  The branch of the \<open>\<Lambda>c \<rightarrow> pK\<pi>\<close> channel (lines 255 to 338); \<open>None\<close> is the \<open>continue\<close> of a
  mass hypothesis that the candidate is not selected for. The parent momentum is switched on
  \<open>bkgRotationId > 0\<close>, the invariant mass on \<open>bkgRotationId\<close> being nonzero.
\<close>

definition kinematicsLcToPKPi ::
  "Helpers \<Rightarrow> Config \<Rightarrow> Task \<Rightarrow> bool \<Rightarrow> CandLcToPKPi \<Rightarrow> int \<Rightarrow> nat \<Rightarrow> Kinematics option" where
  "kinematicsLcToPKPi hf cfg t withMl candidate bkgRotationId iMass =
    (let threeVecLcProng0 = (Finite (pxProng0 candidate), Finite (pyProng0 candidate), Finite (pzProng0 candidate));
         rotatedProng1 = threeVecLcRotatedProng1 t candidate bkgRotationId;
         threeVecLcProng2 = (Finite (pxProng2 candidate), Finite (pyProng2 candidate), Finite (pzProng2 candidate));
         momentum =
           (if bkgRotationId > 0
            then variableDefinition
                   \<lparr> pxCharmHad := comp0 threeVecLcProng0 + comp0 rotatedProng1 + comp0 threeVecLcProng2,
                     pyCharmHad := comp1 threeVecLcProng0 + comp1 rotatedProng1 + comp1 threeVecLcProng2,
                     pzCharmHad := comp2 threeVecLcProng0 + comp2 rotatedProng1 + comp2 threeVecLcProng2,
                     isRotatedCandidate := 1 \<rparr>
            else variableDefinition
                   \<lparr> pxCharmHad := Finite (px candidate),
                     pyCharmHad := Finite (py candidate),
                     pzCharmHad := Finite (pz candidate),
                     isRotatedCandidate := 0 \<rparr>);
         common = momentum
                   \<lparr> massDau := Finite (massProton t),
                     rapidity := RecoDecay_y hf (pxCharmHad momentum, pyCharmHad momentum, pzCharmHad momentum)
                                   (massLc t) \<rparr>
     in if iMass = PKPi \<and> isSelLcToPKPi candidate \<ge> selectionFlagLcToPKPi cfg then
          (let invMass = (if bkgRotationId \<noteq> 0
                          then RecoDecay_m hf [threeVecLcProng0, rotatedProng1, threeVecLcProng2]
                                 [massProton t, massKaon t, massPi t]
                          else Finite (invMassLcToPKPi hf candidate))
           in Some (common \<lparr> pxDau := Finite (pxProng0 candidate),
                             pyDau := Finite (pyProng0 candidate),
                             pzDau := Finite (pzProng0 candidate),
                             invMassCharmHad := invMass,
                             invMassCharmHadForSparse := invMass,
                             outputMl := mlScores withMl (mlProbLcToPKPi candidate) \<rparr>))
        else if iMass = PiKP \<and> isSelLcToPiKP candidate \<ge> selectionFlagLcToPKPi cfg then
          (let invMass = (if bkgRotationId \<noteq> 0
                          then RecoDecay_m hf [threeVecLcProng0, rotatedProng1, threeVecLcProng2]
                                 [massPi t, massKaon t, massProton t]
                          else Finite (invMassLcToPiKP hf candidate))
           in Some (common \<lparr> pxDau := Finite (pxProng2 candidate),
                             pyDau := Finite (pyProng2 candidate),
                             pzDau := Finite (pzProng2 candidate),
                             invMassCharmHad := invMass,
                             invMassCharmHadForSparse := invMass,
                             outputMl := mlScores withMl (mlProbLcToPiKP candidate) \<rparr>))
        else None)"

section \<open>The angles and the fills of one evaluation\<close>

text \<open>
  Modelled from the spec: \<open>gRandom\<close> is ROOT's global generator, outside src/. The spec has
  the two angles of the random axis "drawn uniformly in [0,\<pi>] and [0,2\<pi>] respectively,
  independently for every evaluation". The generator is a stream of draws from the unit
  interval and a position in it; \<open>Uniform\<close> scales the draw at a position to the interval.
\<close>

definition Uniform :: "(nat \<Rightarrow> real) \<Rightarrow> nat \<Rightarrow> real \<Rightarrow> real \<Rightarrow> cfloat" where
  "Uniform gRandom n x1 x2 = Finite (x1 + (x2 - x1) * gRandom n)"

definition fourVecDau :: "Kinematics \<Rightarrow> PxPyPzMVector" where
  "fourVecDau k = (pxDau k, pyDau k, pzDau k, massDau k)"

definition fourVecMother :: "Kinematics \<Rightarrow> PxPyPzMVector" where
  "fourVecMother k = (pxCharmHad k, pyCharmHad k, pzCharmHad k, invMassCharmHad k)"

definition threeVecDauCM :: "Kinematics \<Rightarrow> XYZVector" where
  "threeVecDauCM k = Boost (BoostToCM (fourVecMother k)) (fourVecDau k)"

text \<open>
  The random axis of line 348. With exact sines and cosines it has length 1; the code
  forms it from single-precision products and does not normalise it, so that the length
  of the computed axis is 1 only up to rounding, which the model does not have.
\<close>

definition randomVec :: "cfloat \<Rightarrow> cfloat \<Rightarrow> XYZVector" where
  "randomVec phiRandom thetaRandom =
    (fsin thetaRandom * fcos phiRandom, fsin thetaRandom * fsin phiRandom, fcos thetaRandom)"

definition beamVec :: XYZVector where
  "beamVec = (Finite 0, Finite 0, Finite 1)"

definition helicityVec :: "Kinematics \<Rightarrow> XYZVector" where
  "helicityVec k = Vect (fourVecMother k)"

definition normalVec :: "Kinematics \<Rightarrow> XYZVector" where
  "normalVec k = (pyCharmHad k, - pxCharmHad k, Finite 0)"

record Cosines =
  cosThetaStarHelicity :: cfloat
  cosThetaStarProduction :: cfloat
  cosThetaStarBeam :: cfloat
  cosThetaStarRandom :: cfloat

definition cosThetaStar :: "Kinematics \<Rightarrow> cfloat \<Rightarrow> cfloat \<Rightarrow> Cosines" where
  "cosThetaStar k phiRandom thetaRandom =
    \<lparr> cosThetaStarHelicity =
        Dot (helicityVec k) (threeVecDauCM k) / fsqrt (Mag2 (threeVecDauCM k)) / fsqrt (Mag2 (helicityVec k)),
      cosThetaStarProduction =
        Dot (normalVec k) (threeVecDauCM k) / fsqrt (Mag2 (threeVecDauCM k)) / fsqrt (Mag2 (normalVec k)),
      cosThetaStarBeam =
        Dot beamVec (threeVecDauCM k) / fsqrt (Mag2 (threeVecDauCM k)),
      cosThetaStarRandom =
        Dot (randomVec phiRandom thetaRandom) (threeVecDauCM k) / fsqrt (Mag2 (threeVecDauCM k)) \<rparr>"

text \<open>
  A call of \<open>registry.fill\<close>: the name of the histogram and the values, in the order of
  its axes. The decay channels of the task are an enumeration.
\<close>

datatype DecayChannel = DstarToDzeroPi | LcToPKPi | LcToPK0S

type_synonym Fill = "string \<times> cfloat list"

definition candidatePt :: "Kinematics \<Rightarrow> cfloat" where
  "candidatePt k = fsqrt (pxCharmHad k * pxCharmHad k + pyCharmHad k * pyCharmHad k)"

text \<open>
  The fill of one histogram, for the channel and the mode: the five common values, then
  the first and the third ML score with ML, then the rotation flag for \<open>\<Lambda>c\<close>. No other
  channel fills.
\<close>

definition fill :: "DecayChannel \<Rightarrow> bool \<Rightarrow> Kinematics \<Rightarrow> string \<Rightarrow> cfloat \<Rightarrow> Fill list" where
  "fill channel withMl k name cosThetaStarAxis =
    (let common = [invMassCharmHadForSparse k, candidatePt k, pzCharmHad k, rapidity k, cosThetaStarAxis];
         ml = (if withMl then [outputMl k ! 0, outputMl k ! 2] else [])
     in if channel = DstarToDzeroPi then [(name, common @ ml)]
        else if channel = LcToPKPi then [(name, common @ ml @ [ofInt (isRotatedCandidate k)])]
        else [])"

definition fillSparses :: "Config \<Rightarrow> DecayChannel \<Rightarrow> bool \<Rightarrow> Kinematics \<Rightarrow> Cosines \<Rightarrow> Fill list" where
  "fillSparses cfg channel withMl k cs =
    (if activateTHnSparseCosThStarHelicity cfg
     then fill channel withMl k ''hSparseCharmPolarisationHelicity'' (cosThetaStarHelicity cs) else [])
    @ (if activateTHnSparseCosThStarProduction cfg
       then fill channel withMl k ''hSparseCharmPolarisationProduction'' (cosThetaStarProduction cs) else [])
    @ (if activateTHnSparseCosThStarBeam cfg
       then fill channel withMl k ''hSparseCharmPolarisationBeam'' (cosThetaStarBeam cs) else [])
    @ (if activateTHnSparseCosThStarRandom cfg
       then fill channel withMl k ''hSparseCharmPolarisationRandom'' (cosThetaStarRandom cs) else [])"

text \<open>
  What one pass through the loop body does: it is skipped by \<open>continue\<close>, or it draws the
  two random angles, computes the four cosines (lines 340 to 356) and fills the active
  histograms (lines 358 to 433).
\<close>

datatype Outcome = Skipped | Filled Cosines "Fill list"

definition angularAnalysis ::
  "Config \<Rightarrow> (nat \<Rightarrow> real) \<Rightarrow> DecayChannel \<Rightarrow> bool \<Rightarrow> Kinematics \<Rightarrow> nat \<Rightarrow> Outcome" where
  "angularAnalysis cfg gRandom channel withMl k n =
    (let phiRandom = Uniform gRandom n 0 TwoPI;
         thetaRandom = Uniform gRandom (n + 1) 0 PI;
         cs = cosThetaStar k phiRandom thetaRandom
     in Filled cs (fillSparses cfg channel withMl k cs))"

section \<open>The loops: mass hypotheses, rotations, candidates\<close>

text \<open>
  The model records every pass through the loop body: the mass hypothesis, the rotation
  index and the outcome.
\<close>

type_synonym Evaluation = "nat \<times> int \<times> Outcome"

text \<open>
  The loop over mass hypotheses. The position in the random stream advances by the two
  draws of a pass that is not skipped.
\<close>

fun massHypothesesLoop ::
  "(nat \<Rightarrow> nat \<Rightarrow> Outcome) \<Rightarrow> int \<Rightarrow> nat list \<Rightarrow> nat \<Rightarrow> Evaluation list \<times> nat" where
  "massHypothesesLoop body bkgRotationId [] n = ([], n)"
| "massHypothesesLoop body bkgRotationId (iMass # rest) n =
    (let out = body iMass n;
         n' = (case out of Skipped \<Rightarrow> n | Filled cs fs \<Rightarrow> n + 2);
         (evs, n'') = massHypothesesLoop body bkgRotationId rest n'
     in ((iMass, bkgRotationId, out) # evs, n''))"

text \<open>
  \<open>runPolarisationAnalysis\<close> as the task instantiates it: for the D* channel without ML,
  and for the \<open>\<Lambda>c \<rightarrow> pK\<pi>\<close> channel without and with ML.
\<close>

definition runPolarisationAnalysis_Dstar ::
  "Config \<Rightarrow> Task \<Rightarrow> (nat \<Rightarrow> real) \<Rightarrow> CandDstar \<Rightarrow> int \<Rightarrow> nat \<Rightarrow> Evaluation list \<times> nat" where
  "runPolarisationAnalysis_Dstar cfg t gRandom candidate bkgRotationId n =
    massHypothesesLoop
      (\<lambda>iMass. angularAnalysis cfg gRandom DstarToDzeroPi False (kinematicsDstar t candidate))
      bkgRotationId [0 ..< nMassHypos t] n"

definition runPolarisationAnalysis_LcToPKPi ::
  "Helpers \<Rightarrow> Config \<Rightarrow> Task \<Rightarrow> (nat \<Rightarrow> real) \<Rightarrow> bool \<Rightarrow> CandLcToPKPi \<Rightarrow> int \<Rightarrow> nat
    \<Rightarrow> Evaluation list \<times> nat" where
  "runPolarisationAnalysis_LcToPKPi hf cfg t gRandom withMl candidate bkgRotationId n =
    massHypothesesLoop
      (\<lambda>iMass n. case kinematicsLcToPKPi hf cfg t withMl candidate bkgRotationId iMass of
                   None \<Rightarrow> Skipped
                 | Some k \<Rightarrow> angularAnalysis cfg gRandom LcToPKPi withMl k n)
      bkgRotationId [0 ..< nMassHypos t] n"

text \<open>A sequence of calls, each starting where the one before left the random stream.\<close>

fun forEach ::
  "('a \<Rightarrow> nat \<Rightarrow> Evaluation list \<times> nat) \<Rightarrow> 'a list \<Rightarrow> nat \<Rightarrow> Evaluation list \<times> nat" where
  "forEach call [] n = ([], n)"
| "forEach call (x # xs) n =
    (let (evs, n') = call x n;
         (evs', n'') = forEach call xs n'
     in (evs @ evs', n''))"

text \<open>
  The process functions. The one for D* with ML is a dummy. The loop over the rotations
  counts an \<open>int\<close> from 1 up to \<open>nBkgRotations\<close>; the list of these values stands for the loop
  as long as \<open>nBkgRotations\<close> is below 2147483647, where the increment of the counter does
  not overflow.
\<close>

definition processDstar ::
  "Config \<Rightarrow> Task \<Rightarrow> (nat \<Rightarrow> real) \<Rightarrow> CandDstar \<Rightarrow> nat \<Rightarrow> Evaluation list \<times> nat" where
  "processDstar cfg t gRandom dstarCandidate n =
    runPolarisationAnalysis_Dstar cfg t gRandom dstarCandidate 0 n"

definition processDstarWithMl :: "CandDstar \<Rightarrow> nat \<Rightarrow> Evaluation list \<times> nat" where
  "processDstarWithMl dstarCandidate n = ([], n)"

definition processLcToPKPi ::
  "Helpers \<Rightarrow> Config \<Rightarrow> Task \<Rightarrow> (nat \<Rightarrow> real) \<Rightarrow> CandLcToPKPi \<Rightarrow> nat \<Rightarrow> Evaluation list \<times> nat" where
  "processLcToPKPi hf cfg t gRandom lcCandidate n =
    (let (evs, n') = runPolarisationAnalysis_LcToPKPi hf cfg t gRandom False lcCandidate 0 n;
         (evs', n'') = forEach (runPolarisationAnalysis_LcToPKPi hf cfg t gRandom False lcCandidate)
                         [1 .. sint (nBkgRotations cfg)] n'
     in (evs @ evs', n''))"

definition processLcToPKPiWithMl ::
  "Helpers \<Rightarrow> Config \<Rightarrow> Task \<Rightarrow> (nat \<Rightarrow> real) \<Rightarrow> CandLcToPKPi \<Rightarrow> nat \<Rightarrow> Evaluation list \<times> nat" where
  "processLcToPKPiWithMl hf cfg t gRandom lcCandidate n =
    (let (evs, n') = runPolarisationAnalysis_LcToPKPi hf cfg t gRandom True lcCandidate 0 n;
         (evs', n'') = forEach (runPolarisationAnalysis_LcToPKPi hf cfg t gRandom True lcCandidate)
                         [1 .. sint (nBkgRotations cfg)] n'
     in (evs @ evs', n''))"

text \<open>The fills that reach the registry, in order, and the pairs that were evaluated.\<close>

fun fillsOf :: "Evaluation list \<Rightarrow> Fill list" where
  "fillsOf [] = []"
| "fillsOf ((iMass, bkgRotationId, Skipped) # evs) = fillsOf evs"
| "fillsOf ((iMass, bkgRotationId, Filled cs fs) # evs) = fs @ fillsOf evs"

definition pairsOf :: "Evaluation list \<Rightarrow> (nat \<times> int) list" where
  "pairsOf evs = map (\<lambda>(iMass, bkgRotationId, out). (iMass, bkgRotationId)) evs"

text \<open>
  The process function for \<open>\<Lambda>c\<close> of the mode, with or without ML, and the evaluations of
  a list that were not skipped.
\<close>

definition processLc ::
  "Helpers \<Rightarrow> Config \<Rightarrow> Task \<Rightarrow> (nat \<Rightarrow> real) \<Rightarrow> bool \<Rightarrow> CandLcToPKPi \<Rightarrow> nat \<Rightarrow> Evaluation list \<times> nat" where
  "processLc hf cfg t gRandom withMl lcCandidate n =
    (if withMl then processLcToPKPiWithMl hf cfg t gRandom lcCandidate n
     else processLcToPKPi hf cfg t gRandom lcCandidate n)"

definition evaluated :: "Evaluation list \<Rightarrow> Evaluation list" where
  "evaluated evs = filter (\<lambda>(iMass, bkgRotationId, out). out \<noteq> Skipped) evs"

text \<open>
  A run of the task: the framework calls \<open>init\<close> once, and then the enabled process
  function for every candidate of its table that passes the filter. A fatal error in
  \<open>init\<close> ends the run there.
\<close>

definition runTask ::
  "PhysicsConstants \<Rightarrow> Helpers \<Rightarrow> Config \<Rightarrow> (nat \<Rightarrow> real) \<Rightarrow> CandDstar list \<Rightarrow> CandLcToPKPi list
    \<Rightarrow> fatal + Evaluation list" where
  "runTask phys hf cfg gRandom dstarCandidates lcCandidates =
    (case init phys cfg of
       Inl e \<Rightarrow> Inl e
     | Inr t \<Rightarrow>
         Inr (fst
           (if doprocessDstar cfg then
              forEach (processDstar cfg t gRandom)
                (filter (filterSelectDstarCandidates cfg) dstarCandidates) 0
            else if doprocessDstarWithMl cfg then
              forEach processDstarWithMl
                (filter (filterSelectDstarCandidates cfg) dstarCandidates) 0
            else if doprocessLcToPKPi cfg then
              forEach (processLcToPKPi hf cfg t gRandom)
                (filter (filterSelectLcToPKPiCandidates cfg) lcCandidates) 0
            else
              forEach (processLcToPKPiWithMl hf cfg t gRandom)
                (filter (filterSelectLcToPKPiCandidates cfg) lcCandidates) 0)))"

section \<open>Example inputs\<close>

text \<open>
  A configuration for \<open>\<Lambda>c \<rightarrow> pK\<pi>\<close> without ML and with two rotations, the task that \<open>init\<close>
  makes of it, and a candidate that is selected as pK\<pi> only.
\<close>

definition examplePhysics :: PhysicsConstants where
  "examplePhysics =
    \<lparr> MassPiPlus = 139 / 1000, MassProton = 938 / 1000, MassKaonCharged = 494 / 1000,
      MassDStar = 2010 / 1000, MassLambdaCPlus = 2286 / 1000 \<rparr>"

definition exampleConfig :: Config where
  "exampleConfig =
    \<lparr> doprocessDstar = False, doprocessDstarWithMl = False,
      doprocessLcToPKPi = True, doprocessLcToPKPiWithMl = False,
      selectionFlagDstarToD0Pi = True, selectionFlagLcToPKPi = 1, nBkgRotations = 2,
      activateTHnSparseCosThStarHelicity = True, activateTHnSparseCosThStarProduction = True,
      activateTHnSparseCosThStarBeam = True, activateTHnSparseCosThStarRandom = True \<rparr>"

definition exampleTask :: Task where
  "exampleTask =
    \<lparr> massPi = 139 / 1000, massProton = 938 / 1000, massKaon = 494 / 1000,
      massDstar = 2010 / 1000, massLc = 2286 / 1000,
      bkgRotationAngleStep = Finite (2 * pi / 3), nMassHypos = 2 \<rparr>"

definition exampleHelpers :: Helpers where
  "exampleHelpers =
    \<lparr> invMassLcToPKPi = (\<lambda>candidate. 2286 / 1000),
      invMassLcToPiKP = (\<lambda>candidate. 2300 / 1000),
      RecoDecay_y = (\<lambda>mom mass. Finite 0),
      RecoDecay_m = (\<lambda>arrMom arrMass. Finite (2290 / 1000)) \<rparr>"

definition exampleRandom :: "nat \<Rightarrow> real" where
  "exampleRandom n = 1 / 2"

definition exampleLc :: CandLcToPKPi where
  "exampleLc =
    \<lparr> pxProng0 = 0, pyProng0 = 1, pzProng0 = 1,
      pxProng1 = 3, pyProng1 = 0, pzProng1 = 2,
      pxProng2 = 0, pyProng2 = - 1, pzProng2 = 3,
      px = 3, py = 0, pz = 6,
      isSelLcToPKPi = 1, isSelLcToPiKP = 0,
      mlProbLcToPKPi = [], mlProbLcToPiKP = [] \<rparr>"

definition exampleDstar :: CandDstar where
  "exampleDstar =
    \<lparr> pxSoftPi = 0, pySoftPi = 1, pzSoftPi = 0,
      pxDstar = 3, pyDstar = 0, pzDstar = 0,
      signSoftPi = 1,
      invMassDstar = 2010 / 1000, invMassAntiDstar = 2011 / 1000,
      invMassD0 = 1865 / 1000, invMassD0Bar = 1864 / 1000,
      yDstar = (\<lambda>mass. 0),
      isSelDstarToD0Pi = True \<rparr>"

text \<open>
  Kinematic variables with a parent of momentum \<open>(3, 0, 0)\<close> and mass 4, so of energy 5,
  and a massless probe of momentum \<open>(0, 1, 0)\<close>.
\<close>

definition exampleKinematics :: Kinematics where
  "exampleKinematics =
    variableDefinition
      \<lparr> pxDau := Finite 0, pyDau := Finite 1, pzDau := Finite 0,
        pxCharmHad := Finite 3, pyCharmHad := Finite 0, pzCharmHad := Finite 0,
        massDau := Finite 0, invMassCharmHad := Finite 4 \<rparr>"

section \<open>Start-up\<close>

lemma accumulate_count: "accumulate flags = int (length (filter (\<lambda>b. b) flags))"
  unfolding accumulate_def by (induction flags) auto

lemma init_cases:
  "init phys cfg =
    (let n = length (filter (\<lambda>b. b) [doprocessDstar cfg, doprocessDstarWithMl cfg,
                                       doprocessLcToPKPi cfg, doprocessLcToPKPiWithMl cfg]);
         s = length (filter (\<lambda>b. b) [activateTHnSparseCosThStarHelicity cfg, activateTHnSparseCosThStarProduction cfg,
                    activateTHnSparseCosThStarBeam cfg, activateTHnSparseCosThStarRandom cfg])
     in if n > 1 then Inl OnlyOneProcessFunction
        else if n = 0 then Inl NoProcessFunction
        else if s = 0 then Inl NoOutputTHnSparses
        else Inr \<lparr> massPi = MassPiPlus phys,
                   massProton = MassProton phys,
                   massKaon = MassKaonCharged phys,
                   massDstar = MassDStar phys,
                   massLc = MassLambdaCPlus phys,
                   bkgRotationAngleStep = Finite TwoPI / ofInt (sint (nBkgRotations cfg + 1)),
                   nMassHypos = (if doprocessLcToPKPi cfg \<or> doprocessLcToPKPiWithMl cfg
                                 then NMassHypoLcToPKPi else 1) \<rparr>)"
  unfolding init_def accumulate_count Let_def by simp

lemma init_step:
  assumes "init phys cfg = Inr t"
  shows "bkgRotationAngleStep t = Finite TwoPI / ofInt (sint (nBkgRotations cfg + 1))"
  using assms unfolding init_def Let_def by (auto split: if_splits)

lemma init_nMassHypos:
  assumes "init phys cfg = Inr t"
  shows "nMassHypos t = (if doprocessLcToPKPi cfg \<or> doprocessLcToPKPiWithMl cfg then 2 else 1)"
  using assms unfolding init_def Let_def NMassHypoLcToPKPi_def by (auto split: if_splits)

text \<open>The addition \<open>nBkgRotations + 1\<close> below and at the top of the range of an \<open>int\<close>.\<close>

lemma sint_succ:
  fixes w :: "32 word"
  assumes "sint w < 2147483647"
  shows "sint (w + 1) = sint w + 1"
proof -
  have lo: "- 2147483648 \<le> sint w" using sint_ge[of w] by simp
  have "sint (w + 1) = signed_take_bit 31 (sint w + 1)"
    by (simp add: sint_word_ariths)
  also have "\<dots> = sint w + 1"
    using lo assms by (simp add: signed_take_bit_int_eq_self)
  finally show ?thesis .
qed

lemma sint_succ_zero:
  fixes w :: "32 word"
  shows "sint (w + 1) = 0 \<longleftrightarrow> w = - 1"
proof -
  have "sint (w + 1) = 0 \<longleftrightarrow> w + 1 = 0" by (rule signed_eq_0_iff)
  also have "\<dots> \<longleftrightarrow> w = - 1" by (simp only: eq_neg_iff_add_eq_0)
  finally show ?thesis .
qed

lemma step_finite:
  assumes "init phys cfg = Inr t" and "0 \<le> sint (nBkgRotations cfg)"
    and "sint (nBkgRotations cfg) < 2147483647"
  shows "bkgRotationAngleStep t = Finite (2 * pi / (real_of_int (sint (nBkgRotations cfg)) + 1))"
proof -
  define N where "N = sint (nBkgRotations cfg)"
  have "bkgRotationAngleStep t = Finite (2 * pi) / Finite (real_of_int (N + 1))"
    unfolding init_step[OF assms(1)] ofInt_def TwoPI_def sint_succ[OF assms(3)] N_def ..
  moreover have "0 \<le> N" using assms(2) unfolding N_def .
  ultimately have "bkgRotationAngleStep t = Finite (2 * pi / (real_of_int N + 1))"
    by simp
  then show ?thesis unfolding N_def .
qed

lemma init_example: "init examplePhysics exampleConfig = Inr exampleTask"
  by (simp add: init_def accumulate_def examplePhysics_def exampleConfig_def exampleTask_def
      TwoPI_def ofInt_def NMassHypoLcToPKPi_def)

text \<open>
  C9. With \<open>n\<close> the number of enabled process functions: when \<open>n\<close> is zero or more than
  one, or when none of the four histograms is enabled, \<open>init\<close> ends in a fatal error and
  the run ends with that error, no candidate having been processed; with \<open>n = 1\<close> and a
  histogram enabled, \<open>init\<close> completes and the run goes on to the candidates.
\<close>

theorem startup_checks:
  assumes "n = length (filter (\<lambda>b. b) [doprocessDstar cfg, doprocessDstarWithMl cfg,
                                       doprocessLcToPKPi cfg, doprocessLcToPKPiWithMl cfg])"
    and "anySparse = (activateTHnSparseCosThStarHelicity cfg \<or> activateTHnSparseCosThStarProduction cfg
                     \<or> activateTHnSparseCosThStarBeam cfg \<or> activateTHnSparseCosThStarRandom cfg)"
  shows "(n = 0 \<or> 1 < n \<or> \<not> anySparse \<longrightarrow>
            (\<exists>e. init phys cfg = Inl e \<and> runTask phys hf cfg gRandom dstarCandidates lcCandidates = Inl e))
       \<and> (n = 1 \<and> anySparse \<longrightarrow>
            (\<exists>t. init phys cfg = Inr t)
            \<and> (\<exists>evs. runTask phys hf cfg gRandom dstarCandidates lcCandidates = Inr evs))"
proof -
  define s where "s = length (filter (\<lambda>b. b) [activateTHnSparseCosThStarHelicity cfg, activateTHnSparseCosThStarProduction cfg,
                    activateTHnSparseCosThStarBeam cfg, activateTHnSparseCosThStarRandom cfg])"
  have sp: "anySparse \<longleftrightarrow> s \<noteq> 0"
    unfolding s_def assms(2) by auto
  have ini: "init phys cfg =
     (if n > 1 then Inl OnlyOneProcessFunction
        else if n = 0 then Inl NoProcessFunction
        else if s = 0 then Inl NoOutputTHnSparses
        else Inr \<lparr> massPi = MassPiPlus phys,
                   massProton = MassProton phys,
                   massKaon = MassKaonCharged phys,
                   massDstar = MassDStar phys,
                   massLc = MassLambdaCPlus phys,
                   bkgRotationAngleStep = Finite TwoPI / ofInt (sint (nBkgRotations cfg + 1)),
                   nMassHypos = (if doprocessLcToPKPi cfg \<or> doprocessLcToPKPiWithMl cfg
                                 then NMassHypoLcToPKPi else 1) \<rparr>)"
    unfolding init_cases Let_def assms(1) s_def ..
  have bad: "\<exists>e. init phys cfg = Inl e" if "n = 0 \<or> 1 < n \<or> \<not> anySparse"
    using that sp unfolding ini by auto
  have good: "\<exists>t. init phys cfg = Inr t" if "n = 1 \<and> anySparse"
    using that sp unfolding ini by auto
  show ?thesis
  proof (intro conjI impI)
    assume "n = 0 \<or> 1 < n \<or> \<not> anySparse"
    then obtain e where "init phys cfg = Inl e" using bad by blast
    then show "\<exists>e. init phys cfg = Inl e \<and> runTask phys hf cfg gRandom dstarCandidates lcCandidates = Inl e"
      by (simp add: runTask_def)
  next
    assume "n = 1 \<and> anySparse"
    then show "\<exists>t. init phys cfg = Inr t" using good by blast
  next
    assume "n = 1 \<and> anySparse"
    then obtain t where "init phys cfg = Inr t" using good by blast
    then show "\<exists>evs. runTask phys hf cfg gRandom dstarCandidates lcCandidates = Inr evs"
      by (simp add: runTask_def)
  qed
qed

text \<open>
  The example configuration has one process function and its histograms enabled; with
  the process function switched off, with a second one switched on, and with the four
  histograms switched off, the run of the example candidate ends in the fatal error.
\<close>

theorem startup_checks_witness:
  "(\<exists>t. init examplePhysics exampleConfig = Inr t)
   \<and> (\<exists>evs. runTask examplePhysics exampleHelpers exampleConfig exampleRandom [] [exampleLc] = Inr evs)
   \<and> (\<exists>e. runTask examplePhysics exampleHelpers (exampleConfig \<lparr> doprocessLcToPKPi := False \<rparr>)
             exampleRandom [] [exampleLc] = Inl e)
   \<and> (\<exists>e. runTask examplePhysics exampleHelpers (exampleConfig \<lparr> doprocessDstar := True \<rparr>)
             exampleRandom [] [exampleLc] = Inl e)
   \<and> (\<exists>e. runTask examplePhysics exampleHelpers
             (exampleConfig \<lparr> activateTHnSparseCosThStarHelicity := False,
                              activateTHnSparseCosThStarProduction := False,
                              activateTHnSparseCosThStarBeam := False,
                              activateTHnSparseCosThStarRandom := False \<rparr>)
             exampleRandom [] [exampleLc] = Inl e)"
proof -
  have a: "(\<exists>t. init examplePhysics exampleConfig = Inr t)
      \<and> (\<exists>evs. runTask examplePhysics exampleHelpers exampleConfig exampleRandom [] [exampleLc] = Inr evs)"
    using startup_checks [OF refl refl, of exampleConfig examplePhysics exampleHelpers exampleRandom
        "[]" "[exampleLc]"]
    by (auto simp add: exampleConfig_def)
  have b: "\<exists>e. runTask examplePhysics exampleHelpers (exampleConfig \<lparr> doprocessLcToPKPi := False \<rparr>)
             exampleRandom [] [exampleLc] = Inl e"
    using startup_checks [OF refl refl, of "exampleConfig \<lparr> doprocessLcToPKPi := False \<rparr>"
        examplePhysics exampleHelpers exampleRandom "[]" "[exampleLc]"]
    by (auto simp add: exampleConfig_def)
  have c: "\<exists>e. runTask examplePhysics exampleHelpers (exampleConfig \<lparr> doprocessDstar := True \<rparr>)
             exampleRandom [] [exampleLc] = Inl e"
    using startup_checks [OF refl refl, of "exampleConfig \<lparr> doprocessDstar := True \<rparr>"
        examplePhysics exampleHelpers exampleRandom "[]" "[exampleLc]"]
    by (auto simp add: exampleConfig_def)
  have d: "\<exists>e. runTask examplePhysics exampleHelpers
             (exampleConfig \<lparr> activateTHnSparseCosThStarHelicity := False,
                              activateTHnSparseCosThStarProduction := False,
                              activateTHnSparseCosThStarBeam := False,
                              activateTHnSparseCosThStarRandom := False \<rparr>)
             exampleRandom [] [exampleLc] = Inl e"
    using startup_checks [OF refl refl, of
        "exampleConfig \<lparr> activateTHnSparseCosThStarHelicity := False,
                              activateTHnSparseCosThStarProduction := False,
                              activateTHnSparseCosThStarBeam := False,
                              activateTHnSparseCosThStarRandom := False \<rparr>"
        examplePhysics exampleHelpers exampleRandom "[]" "[exampleLc]"]
    by (auto simp add: exampleConfig_def)
  show ?thesis using a b c d by blast
qed

section \<open>The rotation angles\<close>

text \<open>
  C1, for a number of rotations whose successor is an \<open>int\<close>. After a start-up with \<open>N\<close>
  configured rotations, \<open>0 \<le> N \<le> 2147483646\<close>, the angle of the rotation with index \<open>k\<close> is
  \<open>k \<cdot> 2\<pi> / (N + 1)\<close> for every \<open>k\<close> from 0 to \<open>N\<close>, it lies in \<open>[0, 2\<pi>)\<close>, and it is the angle
  that is applied: the second prong is rotated by it in the transverse plane, and for
  \<open>k \<ge> 1\<close> the momentum of the parent is the sum of the first prong, the second prong so
  rotated and the third prong, and the invariant mass is that of these three. The angle
  of index 0 is 0, and \<open>N + 1\<close> steps make the full circle \<open>2\<pi>\<close>. With \<open>N = 0\<close> the step is
  \<open>2\<pi>\<close>, and a rotation by it leaves the second prong as it is.
\<close>

theorem rotation_angles:
  assumes "init phys cfg = Inr t" and "N = sint (nBkgRotations cfg)"
    and "0 \<le> N" and "N < 2147483647"
  shows "(\<forall>k. 0 \<le> k \<and> k \<le> N \<longrightarrow>
            bkgRotAngle t k = Finite (real_of_int k * (2 * pi) / (real_of_int N + 1))
            \<and> 0 \<le> real_of_int k * (2 * pi) / (real_of_int N + 1)
            \<and> real_of_int k * (2 * pi) / (real_of_int N + 1) < 2 * pi
            \<and> threeVecLcRotatedProng1 t candidate k
                = (Finite (pxProng1 candidate * cos (real_of_int k * (2 * pi) / (real_of_int N + 1))
                           - pyProng1 candidate * sin (real_of_int k * (2 * pi) / (real_of_int N + 1))),
                   Finite (pxProng1 candidate * sin (real_of_int k * (2 * pi) / (real_of_int N + 1))
                           + pyProng1 candidate * cos (real_of_int k * (2 * pi) / (real_of_int N + 1))),
                   Finite (pzProng1 candidate))
            \<and> (\<forall>kin. 1 \<le> k \<and> kinematicsLcToPKPi hf cfg t withMl candidate k iMass = Some kin \<longrightarrow>
                  pxCharmHad kin
                    = Finite (pxProng0 candidate
                              + (pxProng1 candidate * cos (real_of_int k * (2 * pi) / (real_of_int N + 1))
                                 - pyProng1 candidate * sin (real_of_int k * (2 * pi) / (real_of_int N + 1)))
                              + pxProng2 candidate)
                  \<and> pyCharmHad kin
                    = Finite (pyProng0 candidate
                              + (pxProng1 candidate * sin (real_of_int k * (2 * pi) / (real_of_int N + 1))
                                 + pyProng1 candidate * cos (real_of_int k * (2 * pi) / (real_of_int N + 1)))
                              + pyProng2 candidate)
                  \<and> invMassCharmHad kin
                    = RecoDecay_m hf
                        [(Finite (pxProng0 candidate), Finite (pyProng0 candidate), Finite (pzProng0 candidate)),
                         threeVecLcRotatedProng1 t candidate k,
                         (Finite (pxProng2 candidate), Finite (pyProng2 candidate), Finite (pzProng2 candidate))]
                        (if iMass = PKPi then [massProton t, massKaon t, massPi t]
                         else [massPi t, massKaon t, massProton t])))
       \<and> bkgRotAngle t 0 = Finite 0
       \<and> bkgRotAngle t (N + 1) = Finite (2 * pi)
       \<and> (N = 0 \<longrightarrow> bkgRotationAngleStep t = Finite (2 * pi)
                    \<and> threeVecLcRotatedProng1 t candidate 1
                        = (Finite (pxProng1 candidate), Finite (pyProng1 candidate), Finite (pzProng1 candidate)))"
proof -
  have st: "bkgRotationAngleStep t = Finite (2 * pi / (real_of_int N + 1))"
    using step_finite[OF assms(1)] assms(2,3,4) by simp
  have ang: "bkgRotAngle t k = Finite (real_of_int k * (2 * pi) / (real_of_int N + 1))" for k
    unfolding bkgRotAngle_def st ofInt_def by (simp add: mult.commute)
  have pos: "0 < real_of_int N + 1" using assms(3) by simp
  have rng: "0 \<le> real_of_int k * (2 * pi) / (real_of_int N + 1)
           \<and> real_of_int k * (2 * pi) / (real_of_int N + 1) < 2 * pi" if "0 \<le> k" "k \<le> N" for k
  proof
    show "0 \<le> real_of_int k * (2 * pi) / (real_of_int N + 1)"
      using that(1) pos by simp
    have "real_of_int k < real_of_int N + 1" using that(2) by simp
    then have "real_of_int k * (2 * pi) < (real_of_int N + 1) * (2 * pi)"
      by (simp add: mult_strict_right_mono)
    then show "real_of_int k * (2 * pi) / (real_of_int N + 1) < 2 * pi"
      using pos by (simp add: pos_divide_less_eq mult.commute)
  qed
  have prong: "threeVecLcRotatedProng1 t candidate k
        = (Finite (pxProng1 candidate * cos (real_of_int k * (2 * pi) / (real_of_int N + 1))
                   - pyProng1 candidate * sin (real_of_int k * (2 * pi) / (real_of_int N + 1))),
           Finite (pxProng1 candidate * sin (real_of_int k * (2 * pi) / (real_of_int N + 1))
                   + pyProng1 candidate * cos (real_of_int k * (2 * pi) / (real_of_int N + 1))),
           Finite (pzProng1 candidate))" for k
    unfolding threeVecLcRotatedProng1_def Let_def ang by simp
  have parent: "pxCharmHad kin
                    = Finite (pxProng0 candidate
                              + (pxProng1 candidate * cos (real_of_int k * (2 * pi) / (real_of_int N + 1))
                                 - pyProng1 candidate * sin (real_of_int k * (2 * pi) / (real_of_int N + 1)))
                              + pxProng2 candidate)
                  \<and> pyCharmHad kin
                    = Finite (pyProng0 candidate
                              + (pxProng1 candidate * sin (real_of_int k * (2 * pi) / (real_of_int N + 1))
                                 + pyProng1 candidate * cos (real_of_int k * (2 * pi) / (real_of_int N + 1)))
                              + pyProng2 candidate)
                  \<and> invMassCharmHad kin
                    = RecoDecay_m hf
                        [(Finite (pxProng0 candidate), Finite (pyProng0 candidate), Finite (pzProng0 candidate)),
                         threeVecLcRotatedProng1 t candidate k,
                         (Finite (pxProng2 candidate), Finite (pyProng2 candidate), Finite (pzProng2 candidate))]
                        (if iMass = PKPi then [massProton t, massKaon t, massPi t]
                         else [massPi t, massKaon t, massProton t])"
    if "1 \<le> k \<and> kinematicsLcToPKPi hf cfg t withMl candidate k iMass = Some kin" for k kin
  proof -
    from that have k: "0 < k" "k \<noteq> 0" by auto
    from that have "kinematicsLcToPKPi hf cfg t withMl candidate k iMass = Some kin" by simp
    then have "pxCharmHad kin = Finite (pxProng0 candidate) + comp0 (threeVecLcRotatedProng1 t candidate k)
                                + Finite (pxProng2 candidate)
        \<and> pyCharmHad kin = Finite (pyProng0 candidate) + comp1 (threeVecLcRotatedProng1 t candidate k)
                                + Finite (pyProng2 candidate)
        \<and> invMassCharmHad kin
                    = RecoDecay_m hf
                        [(Finite (pxProng0 candidate), Finite (pyProng0 candidate), Finite (pzProng0 candidate)),
                         threeVecLcRotatedProng1 t candidate k,
                         (Finite (pxProng2 candidate), Finite (pyProng2 candidate), Finite (pzProng2 candidate))]
                        (if iMass = PKPi then [massProton t, massKaon t, massPi t]
                         else [massPi t, massKaon t, massProton t])"
      using k unfolding kinematicsLcToPKPi_def Let_def variableDefinition_def
      by (auto simp: PKPi_def PiKP_def split: if_splits)
    then show ?thesis unfolding prong by simp
  qed
  have full: "bkgRotAngle t (N + 1) = Finite (2 * pi)"
    unfolding ang using pos by simp
  have ident: "threeVecLcRotatedProng1 t candidate 1
       = (Finite (pxProng1 candidate), Finite (pyProng1 candidate), Finite (pzProng1 candidate))" if "N = 0"
    unfolding threeVecLcRotatedProng1_def Let_def ang using that by simp
  have zero: "bkgRotAngle t 0 = Finite 0"
    unfolding ang by simp
  have step0: "bkgRotationAngleStep t = Finite (2 * pi)" if "N = 0"
    unfolding st using that by simp
  have all: "\<forall>k. 0 \<le> k \<and> k \<le> N \<longrightarrow>
            bkgRotAngle t k = Finite (real_of_int k * (2 * pi) / (real_of_int N + 1))
            \<and> 0 \<le> real_of_int k * (2 * pi) / (real_of_int N + 1)
            \<and> real_of_int k * (2 * pi) / (real_of_int N + 1) < 2 * pi
            \<and> threeVecLcRotatedProng1 t candidate k
                = (Finite (pxProng1 candidate * cos (real_of_int k * (2 * pi) / (real_of_int N + 1))
                           - pyProng1 candidate * sin (real_of_int k * (2 * pi) / (real_of_int N + 1))),
                   Finite (pxProng1 candidate * sin (real_of_int k * (2 * pi) / (real_of_int N + 1))
                           + pyProng1 candidate * cos (real_of_int k * (2 * pi) / (real_of_int N + 1))),
                   Finite (pzProng1 candidate))
            \<and> (\<forall>kin. 1 \<le> k \<and> kinematicsLcToPKPi hf cfg t withMl candidate k iMass = Some kin \<longrightarrow>
                  pxCharmHad kin
                    = Finite (pxProng0 candidate
                              + (pxProng1 candidate * cos (real_of_int k * (2 * pi) / (real_of_int N + 1))
                                 - pyProng1 candidate * sin (real_of_int k * (2 * pi) / (real_of_int N + 1)))
                              + pxProng2 candidate)
                  \<and> pyCharmHad kin
                    = Finite (pyProng0 candidate
                              + (pxProng1 candidate * sin (real_of_int k * (2 * pi) / (real_of_int N + 1))
                                 + pyProng1 candidate * cos (real_of_int k * (2 * pi) / (real_of_int N + 1)))
                              + pyProng2 candidate)
                  \<and> invMassCharmHad kin
                    = RecoDecay_m hf
                        [(Finite (pxProng0 candidate), Finite (pyProng0 candidate), Finite (pzProng0 candidate)),
                         threeVecLcRotatedProng1 t candidate k,
                         (Finite (pxProng2 candidate), Finite (pyProng2 candidate), Finite (pzProng2 candidate))]
                        (if iMass = PKPi then [massProton t, massKaon t, massPi t]
                         else [massPi t, massKaon t, massProton t]))"
    using ang rng prong parent by blast
  show ?thesis
    using all zero full step0 ident by blast
qed

text \<open>
  With two rotations the angles are 0, \<open>2\<pi>/3\<close> and \<open>4\<pi>/3\<close>, and the first rotation takes the
  second prong \<open>(3, 0, 2)\<close> of the example candidate to \<open>(-3/2, 3 sin (2\<pi>/3), 2)\<close> and its
  parent to the \<open>px\<close> of \<open>0 - 3/2 + 0\<close>; with no rotation, the step is \<open>2\<pi>\<close>.
\<close>

theorem rotation_angles_witness:
  "init examplePhysics exampleConfig = Inr exampleTask
   \<and> 0 \<le> sint (nBkgRotations exampleConfig)
   \<and> sint (nBkgRotations exampleConfig) < 2147483647
   \<and> bkgRotAngle exampleTask 0 = Finite 0
   \<and> bkgRotAngle exampleTask 1 = Finite (2 * pi / 3)
   \<and> bkgRotAngle exampleTask 2 = Finite (4 * pi / 3)
   \<and> bkgRotAngle exampleTask 3 = Finite (2 * pi)
   \<and> threeVecLcRotatedProng1 exampleTask exampleLc 1
       = (Finite (- 3 / 2), Finite (3 * sin (2 * pi / 3)), Finite 2)
   \<and> (\<exists>kin. kinematicsLcToPKPi exampleHelpers exampleConfig exampleTask False exampleLc 1 PKPi = Some kin
            \<and> pxCharmHad kin = Finite (- 3 / 2))
   \<and> (\<exists>t. init examplePhysics (exampleConfig \<lparr> nBkgRotations := 0 \<rparr>) = Inr t
          \<and> bkgRotationAngleStep t = Finite (2 * pi)
          \<and> threeVecLcRotatedProng1 t exampleLc 1 = (Finite 3, Finite 0, Finite 2))"
proof -
  have n: "0 \<le> sint (nBkgRotations exampleConfig)" "sint (nBkgRotations exampleConfig) < 2147483647"
    "sint (nBkgRotations exampleConfig) = 2"
    by (simp_all add: exampleConfig_def)
  note r = rotation_angles [OF init_example refl n(1) n(2), where candidate = exampleLc
      and hf = exampleHelpers and withMl = False and iMass = PKPi]
  note r1 = r [THEN conjunct1, rule_format, of 1]
  have k1: "bkgRotAngle exampleTask 1 = Finite (2 * pi / 3)"
    using r1 n(3) by simp
  have k2: "bkgRotAngle exampleTask 2 = Finite (4 * pi / 3)"
    using r [THEN conjunct1, rule_format, of 2] n(3) by simp
  have k0: "bkgRotAngle exampleTask 0 = Finite 0"
    using r by simp
  have k3: "bkgRotAngle exampleTask 3 = Finite (2 * pi)"
    using r n(3) by simp
  have p1: "threeVecLcRotatedProng1 exampleTask exampleLc 1
       = (Finite (- 3 / 2), Finite (3 * sin (2 * pi / 3)), Finite 2)"
    using r1 n(3) by (simp add: exampleLc_def cos_120)
  have "kinematicsLcToPKPi exampleHelpers exampleConfig exampleTask False exampleLc 1 PKPi \<noteq> None"
    by (simp add: kinematicsLcToPKPi_def Let_def exampleConfig_def exampleLc_def)
  then obtain kin where
    kin: "kinematicsLcToPKPi exampleHelpers exampleConfig exampleTask False exampleLc 1 PKPi = Some kin"
    by auto
  have "pxCharmHad kin = Finite (- 3 / 2)"
    using r1 n(3) kin by (simp add: exampleLc_def cos_120)
  with kin have pk: "\<exists>kin. kinematicsLcToPKPi exampleHelpers exampleConfig exampleTask False exampleLc 1 PKPi = Some kin
            \<and> pxCharmHad kin = Finite (- 3 / 2)" by blast
  obtain t where t: "init examplePhysics (exampleConfig \<lparr> nBkgRotations := 0 \<rparr>) = Inr t"
    by (simp add: init_def accumulate_def exampleConfig_def)
  have z: "bkgRotationAngleStep t = Finite (2 * pi)
          \<and> threeVecLcRotatedProng1 t exampleLc 1 = (Finite 3, Finite 0, Finite 2)"
    using rotation_angles [OF t refl, where candidate = exampleLc]
    by (simp add: exampleConfig_def exampleLc_def)
  show ?thesis using init_example n(1) n(2) k0 k1 k2 k3 p1 pk t z by blast
qed

text \<open>
  C1, as the claim has it, fails at the top of the range of an \<open>int\<close>: with 2147483647
  rotations configured, \<open>nBkgRotations + 1\<close> wraps around to \<open>-2147483648\<close>, the step is
  negative, and the angle of index 1 is not \<open>2\<pi> / 2147483648\<close>.
\<close>

theorem rotation_angles_counterexample:
  "init examplePhysics (exampleConfig \<lparr> nBkgRotations := 2147483647 \<rparr>)
     = Inr (exampleTask \<lparr> bkgRotationAngleStep := Finite (2 * pi / (- 2147483648)) \<rparr>)
   \<and> bkgRotAngle (exampleTask \<lparr> bkgRotationAngleStep := Finite (2 * pi / (- 2147483648)) \<rparr>) 1
       = Finite (- (2 * pi / 2147483648))
   \<and> bkgRotAngle (exampleTask \<lparr> bkgRotationAngleStep := Finite (2 * pi / (- 2147483648)) \<rparr>) 1
       \<noteq> Finite (1 * (2 * pi) / (2147483647 + 1))"
proof -
  have i: "init examplePhysics (exampleConfig \<lparr> nBkgRotations := 2147483647 \<rparr>)
     = Inr (exampleTask \<lparr> bkgRotationAngleStep := Finite (2 * pi / (- 2147483648)) \<rparr>)"
    by (simp add: init_def accumulate_def examplePhysics_def exampleConfig_def exampleTask_def
        TwoPI_def ofInt_def NMassHypoLcToPKPi_def)
  have a: "bkgRotAngle (exampleTask \<lparr> bkgRotationAngleStep := Finite (2 * pi / (- 2147483648)) \<rparr>) 1
       = Finite (- (2 * pi / 2147483648))"
    by (simp add: bkgRotAngle_def ofInt_def)
  have "- (2 * pi / 2147483648) \<noteq> 1 * (2 * pi) / (2147483647 + 1)"
    using pi_gt_zero by simp
  with i a show ?thesis by simp
qed

section \<open>Properties of the loops\<close>

text \<open>
  The pairs and the outcomes that a loop records are those of its passes, and the
  position in the random stream moves by two for every pass that is not skipped.
\<close>

lemma upt_two: "[0 ..< 2] = [0, Suc 0]"
  by (simp add: numeral_2_eq_2)

lemma massHypothesesLoop_pairs:
  "pairsOf (fst (massHypothesesLoop body r ms n)) = map (\<lambda>iMass. (iMass, r)) ms"
  by (induction ms arbitrary: n) (simp_all add: pairsOf_def Let_def case_prod_beta)

lemma massHypothesesLoop_entries:
  assumes "e \<in> set (fst (massHypothesesLoop body r ms n))"
  shows "\<exists>iMass n'. iMass \<in> set ms \<and> e = (iMass, r, body iMass n')"
  using assms
proof (induction ms arbitrary: n)
  case Nil
  then show ?case by simp
next
  case (Cons m ms)
  from Cons.prems have "e = (m, r, body m n)
    \<or> e \<in> set (fst (massHypothesesLoop body r ms (case body m n of Skipped \<Rightarrow> n | Filled cs fs \<Rightarrow> n + 2)))"
    by (simp add: Let_def case_prod_beta)
  then show ?case
  proof
    assume "e = (m, r, body m n)"
    then show ?thesis by auto
  next
    assume "e \<in> set (fst (massHypothesesLoop body r ms (case body m n of Skipped \<Rightarrow> n | Filled cs fs \<Rightarrow> n + 2)))"
    from Cons.IH[OF this] show ?thesis by auto
  qed
qed

lemma pairsOf_append: "pairsOf (xs @ ys) = pairsOf xs @ pairsOf ys"
  by (simp add: pairsOf_def)

lemma pairsOf_member:
  assumes "(iMass, r) \<in> set (pairsOf evs)"
  shows "\<exists>out. (iMass, r, out) \<in> set evs"
  using assms unfolding pairsOf_def by auto

lemma fillsOf_append: "fillsOf (xs @ ys) = fillsOf xs @ fillsOf ys"
  by (induction xs rule: fillsOf.induct) auto

lemma fillsOf_member:
  assumes "f \<in> set (fillsOf evs)"
  shows "\<exists>iMass r cs fs. (iMass, r, Filled cs fs) \<in> set evs \<and> f \<in> set fs"
  using assms by (induction evs rule: fillsOf.induct) auto

lemma forEach_pairs:
  assumes "\<And>x n. pairsOf (fst (call x n)) = f x"
  shows "pairsOf (fst (forEach call xs n)) = concat (map f xs)"
  by (induction xs arbitrary: n) (simp_all add: pairsOf_append Let_def case_prod_beta assms, simp add: pairsOf_def)

lemma forEach_entries:
  assumes "e \<in> set (fst (forEach call xs n))"
  shows "\<exists>x n'. x \<in> set xs \<and> e \<in> set (fst (call x n'))"
  using assms
proof (induction xs arbitrary: n)
  case Nil
  then show ?case by simp
next
  case (Cons x xs)
  from Cons.prems have "e \<in> set (fst (call x n)) \<or> e \<in> set (fst (forEach call xs (snd (call x n))))"
    by (simp add: Let_def case_prod_beta)
  then show ?case
  proof
    assume "e \<in> set (fst (call x n))"
    then show ?thesis by auto
  next
    assume "e \<in> set (fst (forEach call xs (snd (call x n))))"
    from Cons.IH[OF this] show ?thesis by auto
  qed
qed

lemma evaluated_append: "evaluated (xs @ ys) = evaluated xs @ evaluated ys"
  by (simp add: evaluated_def)

lemma massHypothesesLoop_position:
  "snd (massHypothesesLoop body r ms n) = n + 2 * length (evaluated (fst (massHypothesesLoop body r ms n)))"
proof (induction ms arbitrary: n)
  case Nil
  then show ?case by (simp add: evaluated_def)
next
  case (Cons m ms)
  show ?case
  proof (cases "body m n")
    case Skipped
    then show ?thesis
      using Cons.IH[of n] by (simp add: Let_def case_prod_beta evaluated_def)
  next
    case (Filled cs fs)
    then show ?thesis
      using Cons.IH[of "n + 2"] by (simp add: Let_def case_prod_beta evaluated_def)
  qed
qed

lemma forEach_position:
  assumes "\<And>x n. snd (call x n) = n + 2 * length (evaluated (fst (call x n)))"
  shows "snd (forEach call xs n) = n + 2 * length (evaluated (fst (forEach call xs n)))"
proof (induction xs arbitrary: n)
  case Nil
  then show ?case by (simp add: evaluated_def)
next
  case (Cons x xs)
  show ?case
    using Cons.IH[of "snd (call x n)"] assms[of x n]
    by (simp add: Let_def case_prod_beta evaluated_append)
qed

lemma forEach_fills_filter:
  assumes "\<And>x n. x \<in> set xs \<Longrightarrow> filter P (fillsOf (fst (call x n))) = []"
  shows "filter P (fillsOf (fst (forEach call xs n))) = []"
  using assms
proof (induction xs arbitrary: n)
  case Nil
  then show ?case by simp
next
  case (Cons x xs)
  have "filter P (fillsOf (fst (call x n))) = []" using Cons.prems by simp
  moreover have "filter P (fillsOf (fst (forEach call xs (snd (call x n))))) = []"
    using Cons.IH Cons.prems by simp
  ultimately show ?case
    by (simp add: Let_def case_prod_beta fillsOf_append)
qed

lemma init_Dstar_hypos:
  assumes "init phys cfg = Inr t" and "doprocessDstar cfg"
  shows "nMassHypos t = 1"
  using assms unfolding init_def Let_def accumulate_def NMassHypoLcToPKPi_def
  by (auto split: if_splits)

lemma init_Lc_hypos:
  assumes "init phys cfg = Inr t" and "doprocessLcToPKPi cfg \<or> doprocessLcToPKPiWithMl cfg"
  shows "nMassHypos t = 2"
  using assms init_nMassHypos by auto

lemma init_example_ml:
  "init examplePhysics (exampleConfig \<lparr> doprocessLcToPKPi := False, doprocessLcToPKPiWithMl := True \<rparr>)
     = Inr exampleTask"
  by (simp add: init_def accumulate_def examplePhysics_def exampleConfig_def exampleTask_def
      TwoPI_def ofInt_def NMassHypoLcToPKPi_def)

lemma init_example_dstar:
  "init examplePhysics (exampleConfig \<lparr> doprocessLcToPKPi := False, doprocessDstar := True \<rparr>)
     = Inr (exampleTask \<lparr> nMassHypos := 1 \<rparr>)"
  by (simp add: init_def accumulate_def examplePhysics_def exampleConfig_def exampleTask_def
      TwoPI_def ofInt_def NMassHypoLcToPKPi_def)

lemma init_example_dstar_ml:
  "init examplePhysics (exampleConfig \<lparr> doprocessLcToPKPi := False, doprocessDstarWithMl := True \<rparr>)
     = Inr (exampleTask \<lparr> nMassHypos := 1 \<rparr>)"
  by (simp add: init_def accumulate_def examplePhysics_def exampleConfig_def exampleTask_def
      TwoPI_def ofInt_def NMassHypoLcToPKPi_def)

lemma runDstar_pairs:
  "pairsOf (fst (runPolarisationAnalysis_Dstar cfg t gRandom candidate r n))
     = map (\<lambda>iMass. (iMass, r)) [0 ..< nMassHypos t]"
  unfolding runPolarisationAnalysis_Dstar_def by (rule massHypothesesLoop_pairs)

lemma runLc_pairs:
  "pairsOf (fst (runPolarisationAnalysis_LcToPKPi hf cfg t gRandom withMl candidate r n))
     = map (\<lambda>iMass. (iMass, r)) [0 ..< nMassHypos t]"
  unfolding runPolarisationAnalysis_LcToPKPi_def by (rule massHypothesesLoop_pairs)

lemma upto_from_zero: "0 \<le> N \<Longrightarrow> [0 .. N] = 0 # [1 .. N]"
  by (simp add: upto_rec1)

lemma rotations_pairs:
  assumes "nMassHypos t = 2" and "0 \<le> sint (nBkgRotations cfg)"
  shows "pairsOf (fst (runPolarisationAnalysis_LcToPKPi hf cfg t gRandom withMl candidate 0 n))
         @ pairsOf (fst (forEach (runPolarisationAnalysis_LcToPKPi hf cfg t gRandom withMl candidate)
                      [1 .. sint (nBkgRotations cfg)] n'))
       = concat (map (\<lambda>k. [(PKPi, k), (PiKP, k)]) [0 .. sint (nBkgRotations cfg)])"
proof -
  have one: "pairsOf (fst (runPolarisationAnalysis_LcToPKPi hf cfg t gRandom withMl candidate r m))
      = [(PKPi, r), (PiKP, r)]" for r m
    unfolding runLc_pairs assms(1) upt_two PKPi_def PiKP_def by simp
  have "pairsOf (fst (forEach (runPolarisationAnalysis_LcToPKPi hf cfg t gRandom withMl candidate)
                      [1 .. sint (nBkgRotations cfg)] n'))
      = concat (map (\<lambda>k. [(PKPi, k), (PiKP, k)]) [1 .. sint (nBkgRotations cfg)])"
    by (rule forEach_pairs) (rule one)
  then show ?thesis
    unfolding upto_from_zero[OF assms(2)] one by simp
qed

lemma processLc_pairs:
  assumes "nMassHypos t = 2" and "0 \<le> sint (nBkgRotations cfg)"
  shows "pairsOf (fst (processLcToPKPi hf cfg t gRandom candidate n))
           = concat (map (\<lambda>k. [(PKPi, k), (PiKP, k)]) [0 .. sint (nBkgRotations cfg)])"
    and "pairsOf (fst (processLcToPKPiWithMl hf cfg t gRandom candidate n))
           = concat (map (\<lambda>k. [(PKPi, k), (PiKP, k)]) [0 .. sint (nBkgRotations cfg)])"
  unfolding processLcToPKPi_def processLcToPKPiWithMl_def Let_def case_prod_beta fst_conv pairsOf_append
  by (rule rotations_pairs[OF assms])+

lemma processLc_unfold:
  "processLc hf cfg t gRandom withMl c n =
    (let r0 = runPolarisationAnalysis_LcToPKPi hf cfg t gRandom withMl c 0 n;
         rs = forEach (runPolarisationAnalysis_LcToPKPi hf cfg t gRandom withMl c)
                [1 .. sint (nBkgRotations cfg)] (snd r0)
     in (fst r0 @ fst rs, snd rs))"
  unfolding processLc_def processLcToPKPi_def processLcToPKPiWithMl_def Let_def case_prod_beta
  by simp

lemma kinematics_None_iff:
  "kinematicsLcToPKPi hf cfg t withMl c r iMass = None \<longleftrightarrow>
     \<not> (iMass = PKPi \<and> selectionFlagLcToPKPi cfg \<le> isSelLcToPKPi c)
     \<and> \<not> (iMass = PiKP \<and> selectionFlagLcToPKPi cfg \<le> isSelLcToPiKP c)"
  unfolding kinematicsLcToPKPi_def Let_def by simp

lemma bodyLc_Skipped_iff:
  "(case kinematicsLcToPKPi hf cfg t withMl c r iMass of
      None \<Rightarrow> Skipped
    | Some k \<Rightarrow> angularAnalysis cfg gRandom LcToPKPi withMl k n) = Skipped
   \<longleftrightarrow> kinematicsLcToPKPi hf cfg t withMl c r iMass = None"
  by (simp add: angularAnalysis_def Let_def split: option.splits)

lemma runLc_entries:
  assumes "e \<in> set (fst (runPolarisationAnalysis_LcToPKPi hf cfg t gRandom withMl c r n))"
  shows "\<exists>iMass n'. e = (iMass, r,
            case kinematicsLcToPKPi hf cfg t withMl c r iMass of
              None \<Rightarrow> Skipped
            | Some k \<Rightarrow> angularAnalysis cfg gRandom LcToPKPi withMl k n')"
  using massHypothesesLoop_entries[OF assms[unfolded runPolarisationAnalysis_LcToPKPi_def]]
  by blast

lemma processLc_entries:
  assumes "e \<in> set (fst (processLc hf cfg t gRandom withMl c n))"
  shows "\<exists>iMass r n'. (r = 0 \<or> 1 \<le> r \<and> r \<le> sint (nBkgRotations cfg)) \<and> e = (iMass, r,
            case kinematicsLcToPKPi hf cfg t withMl c r iMass of
              None \<Rightarrow> Skipped
            | Some k \<Rightarrow> angularAnalysis cfg gRandom LcToPKPi withMl k n')"
proof -
  from assms have "e \<in> set (fst (runPolarisationAnalysis_LcToPKPi hf cfg t gRandom withMl c 0 n))
     \<or> e \<in> set (fst (forEach (runPolarisationAnalysis_LcToPKPi hf cfg t gRandom withMl c)
                [1 .. sint (nBkgRotations cfg)] (snd (runPolarisationAnalysis_LcToPKPi hf cfg t gRandom withMl c 0 n))))"
    unfolding processLc_unfold Let_def by simp
  then show ?thesis
  proof
    assume "e \<in> set (fst (runPolarisationAnalysis_LcToPKPi hf cfg t gRandom withMl c 0 n))"
    from runLc_entries[OF this] show ?thesis by blast
  next
    assume "e \<in> set (fst (forEach (runPolarisationAnalysis_LcToPKPi hf cfg t gRandom withMl c)
                [1 .. sint (nBkgRotations cfg)] (snd (runPolarisationAnalysis_LcToPKPi hf cfg t gRandom withMl c 0 n))))"
    from forEach_entries[OF this] obtain r n' where
      r: "r \<in> set [1 .. sint (nBkgRotations cfg)]"
      and e: "e \<in> set (fst (runPolarisationAnalysis_LcToPKPi hf cfg t gRandom withMl c r n'))"
      by blast
    from r have "1 \<le> r \<and> r \<le> sint (nBkgRotations cfg)" by simp
    with runLc_entries[OF e] show ?thesis by blast
  qed
qed

lemma processLc_position:
  "snd (processLc hf cfg t gRandom withMl c n)
     = n + 2 * length (evaluated (fst (processLc hf cfg t gRandom withMl c n)))"
proof -
  have one: "snd (runPolarisationAnalysis_LcToPKPi hf cfg t gRandom withMl c r m)
      = m + 2 * length (evaluated (fst (runPolarisationAnalysis_LcToPKPi hf cfg t gRandom withMl c r m)))" for r m
    unfolding runPolarisationAnalysis_LcToPKPi_def by (rule massHypothesesLoop_position)
  have rest: "snd (forEach (runPolarisationAnalysis_LcToPKPi hf cfg t gRandom withMl c) ks m)
      = m + 2 * length (evaluated (fst (forEach (runPolarisationAnalysis_LcToPKPi hf cfg t gRandom withMl c) ks m)))" for ks m
    by (rule forEach_position) (rule one)
  show ?thesis
    unfolding processLc_unfold Let_def snd_conv fst_conv evaluated_append
    using one[of 0 n] rest[of "[1 .. sint (nBkgRotations cfg)]" "snd (runPolarisationAnalysis_LcToPKPi hf cfg t gRandom withMl c 0 n)"]
    by simp
qed

lemma processLc_pairs':
  assumes "nMassHypos t = 2" and "0 \<le> sint (nBkgRotations cfg)"
  shows "pairsOf (fst (processLc hf cfg t gRandom withMl candidate n))
           = concat (map (\<lambda>k. [(PKPi, k), (PiKP, k)]) [0 .. sint (nBkgRotations cfg)])"
  unfolding processLc_def using processLc_pairs[OF assms] by simp

section \<open>The pairs that the dispatcher evaluates\<close>

text \<open>
  C7, as the code has it. After a start-up, a call of the process function for D* without
  ML makes one pass, of mass hypothesis 0 and rotation index 0, which computes the angles
  and the fills of the D* candidate; the process function for D* with ML is a dummy and
  makes no pass. With \<open>N\<close> configured rotations, \<open>0 \<le> N \<le> 2147483646\<close> (the loop counter is an
  \<open>int\<close> and stays below its overflow), a call of the process function for \<open>\<Lambda>c \<rightarrow> pK\<pi>\<close>,
  without or with ML, makes the passes of the two mass hypotheses pK\<pi> and \<pi>Kp for every
  rotation index from 0 to \<open>N\<close>, in this order and no other, and the outcome of each pass
  is that of the loop body for its mass hypothesis and rotation index.
\<close>

theorem dispatcher_pairs:
  assumes "init phys cfg = Inr t"
  shows "(doprocessDstar cfg \<longrightarrow>
            fst (processDstar cfg t gRandom dstarCandidate n)
              = [(0, 0, angularAnalysis cfg gRandom DstarToDzeroPi False
                          (kinematicsDstar t dstarCandidate) n)])
       \<and> (doprocessDstarWithMl cfg \<longrightarrow> fst (processDstarWithMl dstarCandidate n) = [])
       \<and> (doprocessLcToPKPi cfg \<and> 0 \<le> sint (nBkgRotations cfg)
            \<and> sint (nBkgRotations cfg) < 2147483647 \<longrightarrow>
            pairsOf (fst (processLcToPKPi hf cfg t gRandom lcCandidate n))
              = concat (map (\<lambda>k. [(PKPi, k), (PiKP, k)]) [0 .. sint (nBkgRotations cfg)])
            \<and> (\<forall>(iMass, r, out) \<in> set (fst (processLcToPKPi hf cfg t gRandom lcCandidate n)).
                  \<exists>n'. out = (case kinematicsLcToPKPi hf cfg t False lcCandidate r iMass of
                                 None \<Rightarrow> Skipped
                               | Some k \<Rightarrow> angularAnalysis cfg gRandom LcToPKPi False k n')))
       \<and> (doprocessLcToPKPiWithMl cfg \<and> 0 \<le> sint (nBkgRotations cfg)
            \<and> sint (nBkgRotations cfg) < 2147483647 \<longrightarrow>
            pairsOf (fst (processLcToPKPiWithMl hf cfg t gRandom lcCandidate n))
              = concat (map (\<lambda>k. [(PKPi, k), (PiKP, k)]) [0 .. sint (nBkgRotations cfg)])
            \<and> (\<forall>(iMass, r, out) \<in> set (fst (processLcToPKPiWithMl hf cfg t gRandom lcCandidate n)).
                  \<exists>n'. out = (case kinematicsLcToPKPi hf cfg t True lcCandidate r iMass of
                                 None \<Rightarrow> Skipped
                               | Some k \<Rightarrow> angularAnalysis cfg gRandom LcToPKPi True k n')))"
proof -
  have d: "fst (processDstar cfg t gRandom dstarCandidate n)
              = [(0, 0, angularAnalysis cfg gRandom DstarToDzeroPi False
                          (kinematicsDstar t dstarCandidate) n)]"
    if "doprocessDstar cfg"
  proof -
    have "nMassHypos t = 1" using init_Dstar_hypos[OF assms] that by simp
    then show ?thesis
      unfolding processDstar_def runPolarisationAnalysis_Dstar_def
      by (simp add: Let_def case_prod_beta)
  qed
  have dml: "fst (processDstarWithMl dstarCandidate n) = []"
    by (simp add: processDstarWithMl_def)
  have entries: "\<forall>(iMass, r, out) \<in> set (fst (processLc hf cfg t gRandom withMl lcCandidate n)).
                  \<exists>n'. out = (case kinematicsLcToPKPi hf cfg t withMl lcCandidate r iMass of
                                 None \<Rightarrow> Skipped
                               | Some k \<Rightarrow> angularAnalysis cfg gRandom LcToPKPi withMl k n')"
    for withMl
    using processLc_entries[of _ hf cfg t gRandom withMl lcCandidate n] by fastforce
  have lc: "pairsOf (fst (processLcToPKPi hf cfg t gRandom lcCandidate n))
              = concat (map (\<lambda>k. [(PKPi, k), (PiKP, k)]) [0 .. sint (nBkgRotations cfg)])
            \<and> (\<forall>(iMass, r, out) \<in> set (fst (processLcToPKPi hf cfg t gRandom lcCandidate n)).
                  \<exists>n'. out = (case kinematicsLcToPKPi hf cfg t False lcCandidate r iMass of
                                 None \<Rightarrow> Skipped
                               | Some k \<Rightarrow> angularAnalysis cfg gRandom LcToPKPi False k n'))"
    if a: "doprocessLcToPKPi cfg \<and> 0 \<le> sint (nBkgRotations cfg)
            \<and> sint (nBkgRotations cfg) < 2147483647"
  proof -
    have "nMassHypos t = 2" using init_Lc_hypos[OF assms] a by simp
    then have "pairsOf (fst (processLcToPKPi hf cfg t gRandom lcCandidate n))
              = concat (map (\<lambda>k. [(PKPi, k), (PiKP, k)]) [0 .. sint (nBkgRotations cfg)])"
      using processLc_pairs(1) a by blast
    then show ?thesis using entries[of False] by (simp add: processLc_def)
  qed
  have lcml: "pairsOf (fst (processLcToPKPiWithMl hf cfg t gRandom lcCandidate n))
              = concat (map (\<lambda>k. [(PKPi, k), (PiKP, k)]) [0 .. sint (nBkgRotations cfg)])
            \<and> (\<forall>(iMass, r, out) \<in> set (fst (processLcToPKPiWithMl hf cfg t gRandom lcCandidate n)).
                  \<exists>n'. out = (case kinematicsLcToPKPi hf cfg t True lcCandidate r iMass of
                                 None \<Rightarrow> Skipped
                               | Some k \<Rightarrow> angularAnalysis cfg gRandom LcToPKPi True k n'))"
    if a: "doprocessLcToPKPiWithMl cfg \<and> 0 \<le> sint (nBkgRotations cfg)
            \<and> sint (nBkgRotations cfg) < 2147483647"
  proof -
    have "nMassHypos t = 2" using init_Lc_hypos[OF assms] a by simp
    then have "pairsOf (fst (processLcToPKPiWithMl hf cfg t gRandom lcCandidate n))
              = concat (map (\<lambda>k. [(PKPi, k), (PiKP, k)]) [0 .. sint (nBkgRotations cfg)])"
      using processLc_pairs(2) a by blast
    then show ?thesis using entries[of True] by (simp add: processLc_def)
  qed
  show ?thesis using d dml lc lcml by blast
qed

text \<open>
  With two rotations the example candidate goes through six passes, the last of them
  the skipped \<pi>Kp pass of rotation 2; a D* candidate goes through one, and through none
  in the mode with ML.
\<close>

theorem dispatcher_pairs_witness:
  "pairsOf (fst (processLcToPKPi exampleHelpers exampleConfig exampleTask exampleRandom exampleLc 0))
     = [(0, 0), (1, 0), (0, 1), (1, 1), (0, 2), (1, 2)]
   \<and> (PiKP, 2, Skipped)
       \<in> set (fst (processLcToPKPi exampleHelpers exampleConfig exampleTask exampleRandom exampleLc 0))
   \<and> pairsOf (fst (processLcToPKPiWithMl exampleHelpers
                    (exampleConfig \<lparr> doprocessLcToPKPi := False, doprocessLcToPKPiWithMl := True \<rparr>)
                    exampleTask exampleRandom exampleLc 0))
     = [(0, 0), (1, 0), (0, 1), (1, 1), (0, 2), (1, 2)]
   \<and> fst (processDstar (exampleConfig \<lparr> doprocessLcToPKPi := False, doprocessDstar := True \<rparr>)
                    (exampleTask \<lparr> nMassHypos := 1 \<rparr>) exampleRandom exampleDstar 0)
     = [(0, 0, angularAnalysis (exampleConfig \<lparr> doprocessLcToPKPi := False, doprocessDstar := True \<rparr>)
                 exampleRandom DstarToDzeroPi False
                 (kinematicsDstar (exampleTask \<lparr> nMassHypos := 1 \<rparr>) exampleDstar) 0)]
   \<and> fst (processDstarWithMl exampleDstar 0) = []"
proof -
  have u: "[0 .. 2] = [0, 1, 2::int]" by (simp add: upto_rec1)
  note l = dispatcher_pairs [OF init_example, where gRandom = exampleRandom and dstarCandidate = exampleDstar
        and n = 0 and hf = exampleHelpers and lcCandidate = exampleLc]
  have a: "pairsOf (fst (processLcToPKPi exampleHelpers exampleConfig exampleTask exampleRandom exampleLc 0))
     = [(0, 0), (1, 0), (0, 1), (1, 1), (0, 2), (1, 2)]"
    using l by (simp add: exampleConfig_def u PKPi_def PiKP_def)
  have ball: "\<forall>(iMass, r, out) \<in> set (fst (processLcToPKPi exampleHelpers exampleConfig exampleTask exampleRandom exampleLc 0)).
                  \<exists>n'. out = (case kinematicsLcToPKPi exampleHelpers exampleConfig exampleTask False exampleLc r iMass of
                                 None \<Rightarrow> Skipped
                               | Some k \<Rightarrow> angularAnalysis exampleConfig exampleRandom LcToPKPi False k n')"
    using l by (simp add: exampleConfig_def)
  have "(PiKP, 2) \<in> set (pairsOf (fst (processLcToPKPi exampleHelpers exampleConfig exampleTask exampleRandom exampleLc 0)))"
    unfolding a by (simp add: PiKP_def)
  from pairsOf_member[OF this] obtain out where
    out: "(PiKP, 2, out) \<in> set (fst (processLcToPKPi exampleHelpers exampleConfig exampleTask exampleRandom exampleLc 0))"
    by blast
  have "kinematicsLcToPKPi exampleHelpers exampleConfig exampleTask False exampleLc 2 PiKP = None"
    by (simp add: kinematics_None_iff exampleConfig_def exampleLc_def PKPi_def PiKP_def)
  with ball out have "out = Skipped" by fastforce
  with out have sk: "(PiKP, 2, Skipped)
       \<in> set (fst (processLcToPKPi exampleHelpers exampleConfig exampleTask exampleRandom exampleLc 0))"
    by simp
  have b: "pairsOf (fst (processLcToPKPiWithMl exampleHelpers
                    (exampleConfig \<lparr> doprocessLcToPKPi := False, doprocessLcToPKPiWithMl := True \<rparr>)
                    exampleTask exampleRandom exampleLc 0))
     = [(0, 0), (1, 0), (0, 1), (1, 1), (0, 2), (1, 2)]"
    using dispatcher_pairs [OF init_example_ml, where gRandom = exampleRandom and dstarCandidate = exampleDstar
        and n = 0 and hf = exampleHelpers and lcCandidate = exampleLc]
    by (simp add: exampleConfig_def u PKPi_def PiKP_def)
  have c: "fst (processDstar (exampleConfig \<lparr> doprocessLcToPKPi := False, doprocessDstar := True \<rparr>)
                    (exampleTask \<lparr> nMassHypos := 1 \<rparr>) exampleRandom exampleDstar 0)
     = [(0, 0, angularAnalysis (exampleConfig \<lparr> doprocessLcToPKPi := False, doprocessDstar := True \<rparr>)
                 exampleRandom DstarToDzeroPi False
                 (kinematicsDstar (exampleTask \<lparr> nMassHypos := 1 \<rparr>) exampleDstar) 0)]"
    using dispatcher_pairs [OF init_example_dstar, where gRandom = exampleRandom and dstarCandidate = exampleDstar
        and n = 0 and hf = exampleHelpers and lcCandidate = exampleLc]
    by (simp add: exampleConfig_def)
  have d: "fst (processDstarWithMl exampleDstar 0) = []"
    using dispatcher_pairs [OF init_example_dstar_ml, where gRandom = exampleRandom and dstarCandidate = exampleDstar
        and n = 0 and hf = exampleHelpers and lcCandidate = exampleLc]
    by (simp add: exampleConfig_def)
  show ?thesis using a sk b c d by blast
qed

text \<open>
  C7, as the claim has it, fails in the mode of D* with ML: \<open>init\<close> accepts the mode, the
  example D* candidate passes the filter, and the run makes no pass for it, where the
  claim has the pass of mass hypothesis 0 and rotation index 0.
\<close>

theorem dispatcher_pairs_counterexample:
  "init examplePhysics (exampleConfig \<lparr> doprocessLcToPKPi := False, doprocessDstarWithMl := True \<rparr>)
     = Inr (exampleTask \<lparr> nMassHypos := 1 \<rparr>)
   \<and> filterSelectDstarCandidates
        (exampleConfig \<lparr> doprocessLcToPKPi := False, doprocessDstarWithMl := True \<rparr>) exampleDstar
   \<and> pairsOf (fst (processDstarWithMl exampleDstar 0)) \<noteq> [(0, 0)]
   \<and> runTask examplePhysics exampleHelpers
        (exampleConfig \<lparr> doprocessLcToPKPi := False, doprocessDstarWithMl := True \<rparr>)
        exampleRandom [exampleDstar] [] = Inr []"
proof -
  have f: "filterSelectDstarCandidates
        (exampleConfig \<lparr> doprocessLcToPKPi := False, doprocessDstarWithMl := True \<rparr>) exampleDstar"
    by (simp add: filterSelectDstarCandidates_def exampleConfig_def exampleDstar_def)
  have p: "pairsOf (fst (processDstarWithMl exampleDstar 0)) \<noteq> [(0, 0)]"
    by (simp add: processDstarWithMl_def pairsOf_def)
  have r: "runTask examplePhysics exampleHelpers
        (exampleConfig \<lparr> doprocessLcToPKPi := False, doprocessDstarWithMl := True \<rparr>)
        exampleRandom [exampleDstar] [] = Inr []"
    unfolding runTask_def init_example_dstar_ml using f
    by (simp add: exampleConfig_def processDstarWithMl_def)
  show ?thesis using init_example_dstar_ml f p r by blast
qed

section \<open>Mass hypotheses that the candidate is not selected for\<close>

text \<open>
  C5. In the evaluations of a \<open>\<Lambda>c\<close> candidate, without or with ML, a pass is skipped exactly
  when the selection flag of its mass hypothesis is below the configured threshold: the
  kinematic variables are not computed, and the pass has no cosines and no fills. So a
  candidate that is not selected as \<pi>Kp has all its \<pi>Kp passes skipped, and likewise for
  pK\<pi>. The passes of the other hypothesis and of the later rotations still take place
  (all pairs are recorded), and the random stream has moved by two draws for every pass
  that was not skipped and by none for a skipped one.
\<close>

theorem unselected_hypothesis_skipped:
  assumes "evs = fst (processLc hf cfg t gRandom withMl candidate n)"
  shows "(\<forall>(iMass, r, out) \<in> set evs.
            (out = Skipped) =
              (\<not> (iMass = PKPi \<and> selectionFlagLcToPKPi cfg \<le> isSelLcToPKPi candidate)
               \<and> \<not> (iMass = PiKP \<and> selectionFlagLcToPKPi cfg \<le> isSelLcToPiKP candidate)))
       \<and> (isSelLcToPKPi candidate < selectionFlagLcToPKPi cfg \<longrightarrow>
            (\<forall>r. kinematicsLcToPKPi hf cfg t withMl candidate r PKPi = None)
            \<and> (\<forall>(iMass, r, out) \<in> set evs. iMass = PKPi \<longrightarrow> out = Skipped))
       \<and> (isSelLcToPiKP candidate < selectionFlagLcToPKPi cfg \<longrightarrow>
            (\<forall>r. kinematicsLcToPKPi hf cfg t withMl candidate r PiKP = None)
            \<and> (\<forall>(iMass, r, out) \<in> set evs. iMass = PiKP \<longrightarrow> out = Skipped))
       \<and> (nMassHypos t = 2 \<and> 0 \<le> sint (nBkgRotations cfg) \<longrightarrow>
            pairsOf evs = concat (map (\<lambda>k. [(PKPi, k), (PiKP, k)]) [0 .. sint (nBkgRotations cfg)]))
       \<and> snd (processLc hf cfg t gRandom withMl candidate n) = n + 2 * length (evaluated evs)"
proof -
  have iff: "(out = Skipped) =
              (\<not> (iMass = PKPi \<and> selectionFlagLcToPKPi cfg \<le> isSelLcToPKPi candidate)
               \<and> \<not> (iMass = PiKP \<and> selectionFlagLcToPKPi cfg \<le> isSelLcToPiKP candidate))"
    if "(iMass, r, out) \<in> set evs" for iMass r out
  proof -
    from that obtain n' where "out = (case kinematicsLcToPKPi hf cfg t withMl candidate r iMass of
              None \<Rightarrow> Skipped
            | Some k \<Rightarrow> angularAnalysis cfg gRandom LcToPKPi withMl k n')"
      using processLc_entries[of "(iMass, r, out)" hf cfg t gRandom withMl candidate n]
      unfolding assms by blast
    then show ?thesis
      by (simp only: bodyLc_Skipped_iff kinematics_None_iff)
  qed
  have a: "\<forall>(iMass, r, out) \<in> set evs.
            (out = Skipped) =
              (\<not> (iMass = PKPi \<and> selectionFlagLcToPKPi cfg \<le> isSelLcToPKPi candidate)
               \<and> \<not> (iMass = PiKP \<and> selectionFlagLcToPKPi cfg \<le> isSelLcToPiKP candidate))"
    using iff by blast
  have b: "(\<forall>r. kinematicsLcToPKPi hf cfg t withMl candidate r PKPi = None)
            \<and> (\<forall>(iMass, r, out) \<in> set evs. iMass = PKPi \<longrightarrow> out = Skipped)"
    if "isSelLcToPKPi candidate < selectionFlagLcToPKPi cfg"
    using that iff kinematics_None_iff[of hf cfg t withMl candidate _ PKPi]
    by (auto simp: PKPi_def PiKP_def)
  have c: "(\<forall>r. kinematicsLcToPKPi hf cfg t withMl candidate r PiKP = None)
            \<and> (\<forall>(iMass, r, out) \<in> set evs. iMass = PiKP \<longrightarrow> out = Skipped)"
    if "isSelLcToPiKP candidate < selectionFlagLcToPKPi cfg"
    using that iff kinematics_None_iff[of hf cfg t withMl candidate _ PiKP]
    by (auto simp: PKPi_def PiKP_def)
  have d: "pairsOf evs = concat (map (\<lambda>k. [(PKPi, k), (PiKP, k)]) [0 .. sint (nBkgRotations cfg)])"
    if "nMassHypos t = 2 \<and> 0 \<le> sint (nBkgRotations cfg)"
    unfolding assms using processLc_pairs' that by blast
  have e: "snd (processLc hf cfg t gRandom withMl candidate n) = n + 2 * length (evaluated evs)"
    unfolding assms by (rule processLc_position)
  show ?thesis using a b c d e by blast
qed

text \<open>
  The example candidate is selected as pK\<pi> only: its \<pi>Kp pass of rotation 2 is skipped,
  its pK\<pi> pass of rotation 2 fills.
\<close>

theorem unselected_hypothesis_skipped_witness:
  "isSelLcToPiKP exampleLc < selectionFlagLcToPKPi exampleConfig
   \<and> kinematicsLcToPKPi exampleHelpers exampleConfig exampleTask False exampleLc 2 PiKP = None
   \<and> nMassHypos exampleTask = 2 \<and> 0 \<le> sint (nBkgRotations exampleConfig)
   \<and> pairsOf (fst (processLc exampleHelpers exampleConfig exampleTask exampleRandom False exampleLc 0))
       = [(0, 0), (1, 0), (0, 1), (1, 1), (0, 2), (1, 2)]
   \<and> (PiKP, 2, Skipped) \<in> set (fst (processLc exampleHelpers exampleConfig exampleTask exampleRandom False exampleLc 0))
   \<and> (\<exists>cs fs. (PKPi, 2, Filled cs fs)
               \<in> set (fst (processLc exampleHelpers exampleConfig exampleTask exampleRandom False exampleLc 0)))
   \<and> snd (processLc exampleHelpers exampleConfig exampleTask exampleRandom False exampleLc 0)
       = 2 * length (evaluated (fst (processLc exampleHelpers exampleConfig exampleTask exampleRandom False exampleLc 0)))"
proof -
  define evs where "evs = fst (processLc exampleHelpers exampleConfig exampleTask exampleRandom False exampleLc 0)"
  note u = unselected_hypothesis_skipped [OF evs_def]
  have sel: "isSelLcToPiKP exampleLc < selectionFlagLcToPKPi exampleConfig"
    "selectionFlagLcToPKPi exampleConfig \<le> isSelLcToPKPi exampleLc"
    by (simp_all add: exampleLc_def exampleConfig_def)
  have h: "nMassHypos exampleTask = 2" "0 \<le> sint (nBkgRotations exampleConfig)"
    by (simp_all add: exampleTask_def exampleConfig_def)
  have up: "[0 .. 2] = [0, 1, 2::int]" by (simp add: upto_rec1)
  have none: "kinematicsLcToPKPi exampleHelpers exampleConfig exampleTask False exampleLc 2 PiKP = None"
    using u sel(1) by blast
  have pairs: "pairsOf evs = [(0, 0), (1, 0), (0, 1), (1, 1), (0, 2), (1, 2)]"
    using u h by (simp add: exampleConfig_def up PKPi_def PiKP_def)
  have iff: "\<forall>(iMass, r, out) \<in> set evs.
            (out = Skipped) =
              (\<not> (iMass = PKPi \<and> selectionFlagLcToPKPi exampleConfig \<le> isSelLcToPKPi exampleLc)
               \<and> \<not> (iMass = PiKP \<and> selectionFlagLcToPKPi exampleConfig \<le> isSelLcToPiKP exampleLc))"
    using u by blast
  have "(PiKP, 2) \<in> set (pairsOf evs)" unfolding pairs by (simp add: PiKP_def)
  from pairsOf_member[OF this] obtain out where out: "(PiKP, 2, out) \<in> set evs" by blast
  with iff sel have "out = Skipped" by (auto simp: PKPi_def PiKP_def)
  with out have sk: "(PiKP, 2, Skipped) \<in> set evs" by simp
  have "(PKPi, 2) \<in> set (pairsOf evs)" unfolding pairs by (simp add: PKPi_def)
  from pairsOf_member[OF this] obtain out' where out': "(PKPi, 2, out') \<in> set evs" by blast
  with iff sel have "out' \<noteq> Skipped" by (auto simp: PKPi_def PiKP_def)
  then obtain cs fs where "out' = Filled cs fs" by (cases out') auto
  with out' have fl: "\<exists>cs fs. (PKPi, 2, Filled cs fs) \<in> set evs" by blast
  have pos: "snd (processLc exampleHelpers exampleConfig exampleTask exampleRandom False exampleLc 0)
       = 2 * length (evaluated evs)"
    using u by simp
  show ?thesis
    using sel(1) none h pairs sk fl pos unfolding evs_def by blast
qed

section \<open>The kinematic variables\<close>

lemma fill_values:
  assumes "(name, vs) \<in> set (fill channel withMl k hist c)"
  shows "name = hist \<and> vs ! 0 = invMassCharmHadForSparse k \<and> vs ! 1 = candidatePt k
       \<and> vs ! 2 = pzCharmHad k \<and> vs ! 3 = rapidity k \<and> vs ! 4 = c
       \<and> (withMl \<longrightarrow> vs ! 5 = outputMl k ! 0 \<and> vs ! 6 = outputMl k ! 2)
       \<and> (channel = LcToPKPi \<longrightarrow> last vs = ofInt (isRotatedCandidate k))"
  using assms unfolding fill_def Let_def by (auto split: if_splits)

lemma fillSparses_values:
  assumes "(name, vs) \<in> set (fillSparses cfg channel withMl k cs)"
  shows "vs ! 0 = invMassCharmHadForSparse k \<and> vs ! 1 = candidatePt k
       \<and> vs ! 2 = pzCharmHad k \<and> vs ! 3 = rapidity k
       \<and> (withMl \<longrightarrow> vs ! 5 = outputMl k ! 0 \<and> vs ! 6 = outputMl k ! 2)
       \<and> (channel = LcToPKPi \<longrightarrow> last vs = ofInt (isRotatedCandidate k))"
  using assms fill_values unfolding fillSparses_def
  by (auto split: if_splits)

lemma angularAnalysis_Filled:
  assumes "angularAnalysis cfg gRandom channel withMl k n = Filled cs fs"
  shows "cs = cosThetaStar k (Uniform gRandom n 0 TwoPI) (Uniform gRandom (n + 1) 0 PI)"
    and "fs = fillSparses cfg channel withMl k cs"
  using assms unfolding angularAnalysis_def Let_def by auto

lemma fillsOf_angularAnalysis:
  "fillsOf [(iMass, r, angularAnalysis cfg gRandom channel withMl k n)]
     = fillSparses cfg channel withMl k
         (cosThetaStar k (Uniform gRandom n 0 TwoPI) (Uniform gRandom (n + 1) 0 PI))"
  by (simp add: angularAnalysis_def Let_def)

lemma kinematicsLc_unrotated:
  assumes "kinematicsLcToPKPi hf cfg t withMl c 0 iMass = Some k"
  shows "pxCharmHad k = Finite (px c)" "pyCharmHad k = Finite (py c)" "pzCharmHad k = Finite (pz c)"
    "invMassCharmHad k = Finite (if iMass = PKPi then invMassLcToPKPi hf c else invMassLcToPiKP hf c)"
    "invMassCharmHadForSparse k = invMassCharmHad k"
    "isRotatedCandidate k = 0"
  using assms unfolding kinematicsLcToPKPi_def Let_def variableDefinition_def
  by (auto simp: PKPi_def PiKP_def split: if_splits)

lemma kinematicsLc_fields:
  assumes "kinematicsLcToPKPi hf cfg t withMl c r iMass = Some k"
  shows "isRotatedCandidate k = (if r > 0 then 1 else 0)"
    and "outputMl k = mlScores withMl (if iMass = PKPi then mlProbLcToPKPi c else mlProbLcToPiKP c)"
    and "iMass = PKPi \<or> iMass = PiKP"
  using assms unfolding kinematicsLcToPKPi_def Let_def variableDefinition_def
  by (auto simp: PKPi_def PiKP_def split: if_splits)

lemma kinematicsDstar_mass:
  "invMassCharmHad (kinematicsDstar t c)
     = Finite (if signSoftPi c > 0 then invMassDstar c else invMassAntiDstar c)"
  "invMassCharmHadForSparse (kinematicsDstar t c)
     = Finite (if signSoftPi c > 0 then invMassDstar c - invMassD0 c
               else invMassAntiDstar c - invMassD0Bar c)"
  unfolding kinematicsDstar_def Let_def variableDefinition_def by simp_all

lemma runDstar_entries:
  assumes "e \<in> set (fst (runPolarisationAnalysis_Dstar cfg t gRandom c r n))"
  shows "\<exists>iMass n'. e = (iMass, r, angularAnalysis cfg gRandom DstarToDzeroPi False (kinematicsDstar t c) n')"
  using massHypothesesLoop_entries[OF assms[unfolded runPolarisationAnalysis_Dstar_def]]
  by blast

lemma processDstar_fills:
  assumes "nMassHypos t = 1"
  shows "fillsOf (fst (processDstar cfg t gRandom c n))
     = fillSparses cfg DstarToDzeroPi False (kinematicsDstar t c)
         (cosThetaStar (kinematicsDstar t c) (Uniform gRandom n 0 TwoPI) (Uniform gRandom (n + 1) 0 PI))"
  unfolding processDstar_def runPolarisationAnalysis_Dstar_def assms
  by (simp add: angularAnalysis_def Let_def)

text \<open>
  C3. For a \<open>\<Lambda>c\<close> candidate evaluated with rotation index 0 under a mass hypothesis it is
  selected for, the parent momentum is the candidate's own \<open>px\<close>, \<open>py\<close>, \<open>pz\<close> (also as the
  helicity axis), the invariant mass is the one that the helper gives for the unrotated
  candidate under the hypothesis, and the flag of a rotated candidate is 0; the fills of
  the evaluation carry this mass, this \<open>pz\<close> and the flag 0.
\<close>

theorem unrotated_identity:
  assumes "kinematicsLcToPKPi hf cfg t withMl candidate 0 iMass = Some k"
  shows "pxCharmHad k = Finite (px candidate)
       \<and> pyCharmHad k = Finite (py candidate)
       \<and> pzCharmHad k = Finite (pz candidate)
       \<and> helicityVec k = (Finite (px candidate), Finite (py candidate), Finite (pz candidate))
       \<and> invMassCharmHad k
           = Finite (if iMass = PKPi then invMassLcToPKPi hf candidate else invMassLcToPiKP hf candidate)
       \<and> isRotatedCandidate k = 0
       \<and> (\<forall>(name, vs) \<in> set (fillsOf [(iMass, 0, angularAnalysis cfg gRandom LcToPKPi withMl k n)]).
             vs ! 0 = Finite (if iMass = PKPi then invMassLcToPKPi hf candidate
                              else invMassLcToPiKP hf candidate)
             \<and> vs ! 2 = Finite (pz candidate)
             \<and> last vs = Finite 0)"
proof -
  note u = kinematicsLc_unrotated[OF assms]
  have "helicityVec k = (Finite (px candidate), Finite (py candidate), Finite (pz candidate))"
    unfolding helicityVec_def fourVecMother_def u by simp
  moreover have "vs ! 0 = Finite (if iMass = PKPi then invMassLcToPKPi hf candidate
                              else invMassLcToPiKP hf candidate)
             \<and> vs ! 2 = Finite (pz candidate)
             \<and> last vs = Finite 0"
    if "(name, vs) \<in> set (fillsOf [(iMass, 0, angularAnalysis cfg gRandom LcToPKPi withMl k n)])"
    for name vs
    using fillSparses_values[OF that[unfolded fillsOf_angularAnalysis]] u by (simp add: ofInt_def)
  ultimately show ?thesis using u by auto
qed

text \<open>
  The example candidate has momentum \<open>(3, 0, 6)\<close> and the helper gives it the mass 2.286
  as pK\<pi>.
\<close>

theorem unrotated_identity_witness:
  "\<exists>k. kinematicsLcToPKPi exampleHelpers exampleConfig exampleTask False exampleLc 0 PKPi = Some k
       \<and> pxCharmHad k = Finite 3 \<and> pyCharmHad k = Finite 0 \<and> pzCharmHad k = Finite 6
       \<and> invMassCharmHad k = Finite (2286 / 1000)
       \<and> isRotatedCandidate k = 0
       \<and> fillsOf [(PKPi, 0, angularAnalysis exampleConfig exampleRandom LcToPKPi False k 0)] \<noteq> []
       \<and> snd (hd (fillsOf [(PKPi, 0, angularAnalysis exampleConfig exampleRandom LcToPKPi False k 0)])) ! 2
           = Finite 6
       \<and> last (snd (hd (fillsOf [(PKPi, 0, angularAnalysis exampleConfig exampleRandom LcToPKPi False k 0)])))
           = Finite 0"
proof -
  have "kinematicsLcToPKPi exampleHelpers exampleConfig exampleTask False exampleLc 0 PKPi \<noteq> None"
    by (simp add: kinematics_None_iff exampleConfig_def exampleLc_def)
  then obtain k where k: "kinematicsLcToPKPi exampleHelpers exampleConfig exampleTask False exampleLc 0 PKPi = Some k"
    by auto
  define fs where "fs = fillsOf [(PKPi, 0, angularAnalysis exampleConfig exampleRandom LcToPKPi False k 0)]"
  have ne: "fs \<noteq> []"
    unfolding fs_def fillsOf_angularAnalysis by (simp add: fillSparses_def fill_def exampleConfig_def)
  then have mem: "hd fs \<in> set fs" by simp
  note u = unrotated_identity [OF k, where gRandom = exampleRandom and n = 0]
  from u have ball: "\<forall>(name, vs) \<in> set fs.
             vs ! 0 = Finite (if PKPi = PKPi then invMassLcToPKPi exampleHelpers exampleLc
                              else invMassLcToPiKP exampleHelpers exampleLc)
             \<and> vs ! 2 = Finite (pz exampleLc)
             \<and> last vs = Finite 0"
    unfolding fs_def by blast
  from ball mem have v: "snd (hd fs) ! 2 = Finite (pz exampleLc) \<and> last (snd (hd fs)) = Finite 0"
    by (auto simp: case_prod_beta)
  have f: "pxCharmHad k = Finite 3 \<and> pyCharmHad k = Finite 0 \<and> pzCharmHad k = Finite 6
       \<and> invMassCharmHad k = Finite (2286 / 1000) \<and> isRotatedCandidate k = 0"
    using u by (simp add: exampleLc_def exampleHelpers_def)
  have "pz exampleLc = 6" by (simp add: exampleLc_def)
  with k ne v f show ?thesis unfolding fs_def by auto
qed

text \<open>
  C8. For a D* candidate the parent invariant mass is that of the D* when the sign of the
  soft pion is positive and that of the anti-D* otherwise, and the mass of every fill is
  this mass minus the invariant mass of the \<open>D\<^sup>0\<close>, respectively of the \<open>D\<^sup>0\<close>-bar.
\<close>

theorem dstar_mass_difference:
  "invMassCharmHad (kinematicsDstar t candidate)
     = Finite (if signSoftPi candidate > 0 then invMassDstar candidate else invMassAntiDstar candidate)
   \<and> invMassCharmHadForSparse (kinematicsDstar t candidate)
       = Finite (if signSoftPi candidate > 0 then invMassDstar candidate - invMassD0 candidate
                 else invMassAntiDstar candidate - invMassD0Bar candidate)
   \<and> (\<forall>(name, vs) \<in> set (fillsOf (fst (processDstar cfg t gRandom candidate n))).
         vs ! 0 = Finite (if signSoftPi candidate > 0 then invMassDstar candidate - invMassD0 candidate
                          else invMassAntiDstar candidate - invMassD0Bar candidate))"
proof -
  have "vs ! 0 = Finite (if signSoftPi candidate > 0 then invMassDstar candidate - invMassD0 candidate
                          else invMassAntiDstar candidate - invMassD0Bar candidate)"
    if "(name, vs) \<in> set (fillsOf (fst (processDstar cfg t gRandom candidate n)))" for name vs
  proof -
    from fillsOf_member[OF that] obtain iMass r cs fs where
      e: "(iMass, r, Filled cs fs) \<in> set (fst (processDstar cfg t gRandom candidate n))"
      and f: "(name, vs) \<in> set fs" by blast
    from runDstar_entries[OF e[unfolded processDstar_def]] obtain n' where
      "Filled cs fs = angularAnalysis cfg gRandom DstarToDzeroPi False (kinematicsDstar t candidate) n'"
      by blast
    from angularAnalysis_Filled(2)[OF this[symmetric]] f
    have "(name, vs) \<in> set (fillSparses cfg DstarToDzeroPi False (kinematicsDstar t candidate) cs)"
      by simp
    from fillSparses_values[OF this] show ?thesis
      by (simp add: kinematicsDstar_mass)
  qed
  then show ?thesis using kinematicsDstar_mass by auto
qed

text \<open>
  The example D* candidate has a positive soft pion, the masses 2.010 and 1.865, and so
  the difference 0.145 in its fills.
\<close>

theorem dstar_mass_difference_witness:
  "invMassCharmHad (kinematicsDstar (exampleTask \<lparr> nMassHypos := 1 \<rparr>) exampleDstar) = Finite (2010 / 1000)
   \<and> invMassCharmHadForSparse (kinematicsDstar (exampleTask \<lparr> nMassHypos := 1 \<rparr>) exampleDstar)
       = Finite (145 / 1000)
   \<and> fillsOf (fst (processDstar (exampleConfig \<lparr> doprocessLcToPKPi := False, doprocessDstar := True \<rparr>)
                    (exampleTask \<lparr> nMassHypos := 1 \<rparr>) exampleRandom exampleDstar 0)) \<noteq> []
   \<and> snd (hd (fillsOf (fst (processDstar (exampleConfig \<lparr> doprocessLcToPKPi := False, doprocessDstar := True \<rparr>)
                    (exampleTask \<lparr> nMassHypos := 1 \<rparr>) exampleRandom exampleDstar 0)))) ! 0
       = Finite (145 / 1000)"
proof -
  define fs where "fs = fillsOf (fst (processDstar (exampleConfig \<lparr> doprocessLcToPKPi := False, doprocessDstar := True \<rparr>)
                    (exampleTask \<lparr> nMassHypos := 1 \<rparr>) exampleRandom exampleDstar 0))"
  have ne: "fs \<noteq> []"
    unfolding fs_def by (subst processDstar_fills) (simp_all add: fillSparses_def fill_def exampleConfig_def)
  then have mem: "hd fs \<in> set fs" by simp
  note u = dstar_mass_difference [where t = "exampleTask \<lparr> nMassHypos := 1 \<rparr>" and candidate = exampleDstar
      and cfg = "exampleConfig \<lparr> doprocessLcToPKPi := False, doprocessDstar := True \<rparr>"
      and gRandom = exampleRandom and n = 0]
  from u have ball: "\<forall>(name, vs) \<in> set fs.
         vs ! 0 = Finite (if signSoftPi exampleDstar > 0 then invMassDstar exampleDstar - invMassD0 exampleDstar
                          else invMassAntiDstar exampleDstar - invMassD0Bar exampleDstar)"
    unfolding fs_def by blast
  from ball mem have v: "snd (hd fs) ! 0 = Finite (145 / 1000)"
    by (auto simp: case_prod_beta exampleDstar_def)
  have m: "invMassCharmHad (kinematicsDstar (exampleTask \<lparr> nMassHypos := 1 \<rparr>) exampleDstar) = Finite (2010 / 1000)
   \<and> invMassCharmHadForSparse (kinematicsDstar (exampleTask \<lparr> nMassHypos := 1 \<rparr>) exampleDstar)
       = Finite (145 / 1000)"
    using u by (simp add: exampleDstar_def)
  show ?thesis using m ne v unfolding fs_def by blast
qed

lemma rotation_transverse:
  "(a * cos x - b * sin x) * (a * cos x - b * sin x) + (a * sin x + b * cos x) * (a * sin x + b * cos x)
     = a * a + (b * b :: real)"
proof -
  have s: "sin x * sin x = 1 - cos x * cos x"
    using sin_cos_squared_add3[of x] by linarith
  show ?thesis
    by (simp add: algebra_simps s)
qed

text \<open>
  C10. For every rotation index the rotated second prong keeps the \<open>z\<close> component of the
  prong, and it keeps \<open>px\<^sup>2 + py\<^sup>2\<close> whenever the angle is finite, which it is after a
  start-up with a number of rotations other than \<open>-1\<close>. The parent of a rotated replica
  (rotation index above 0) has as \<open>pz\<close> the sum of the \<open>z\<close> components of the three prongs.
\<close>

theorem rotation_preserves:
  "comp2 (threeVecLcRotatedProng1 t candidate r) = Finite (pzProng1 candidate)
   \<and> (bkgRotAngle t r \<noteq> NonFinite \<longrightarrow>
        comp0 (threeVecLcRotatedProng1 t candidate r) * comp0 (threeVecLcRotatedProng1 t candidate r)
        + comp1 (threeVecLcRotatedProng1 t candidate r) * comp1 (threeVecLcRotatedProng1 t candidate r)
        = Finite (pxProng1 candidate * pxProng1 candidate + pyProng1 candidate * pyProng1 candidate))
   \<and> (init phys cfg = Inr t \<and> nBkgRotations cfg \<noteq> - 1 \<longrightarrow> bkgRotAngle t r \<noteq> NonFinite)
   \<and> (0 < r \<and> kinematicsLcToPKPi hf cfg t withMl candidate r iMass = Some k \<longrightarrow>
        pzCharmHad k = Finite (pzProng0 candidate + pzProng1 candidate + pzProng2 candidate)
        \<and> isRotatedCandidate k = 1)"
proof -
  have z: "comp2 (threeVecLcRotatedProng1 t candidate r) = Finite (pzProng1 candidate)"
    unfolding threeVecLcRotatedProng1_def Let_def by simp
  have tr: "comp0 (threeVecLcRotatedProng1 t candidate r) * comp0 (threeVecLcRotatedProng1 t candidate r)
        + comp1 (threeVecLcRotatedProng1 t candidate r) * comp1 (threeVecLcRotatedProng1 t candidate r)
        = Finite (pxProng1 candidate * pxProng1 candidate + pyProng1 candidate * pyProng1 candidate)"
    if "bkgRotAngle t r \<noteq> NonFinite"
  proof -
    from that obtain a where a: "bkgRotAngle t r = Finite a" by (cases "bkgRotAngle t r") auto
    show ?thesis
      unfolding threeVecLcRotatedProng1_def Let_def a
      by (simp add: rotation_transverse)
  qed
  have fin: "bkgRotAngle t r \<noteq> NonFinite" if "init phys cfg = Inr t \<and> nBkgRotations cfg \<noteq> - 1"
  proof -
    define d where "d = sint (nBkgRotations cfg + 1)"
    have "d \<noteq> 0" using that sint_succ_zero[of "nBkgRotations cfg"] unfolding d_def by simp
    moreover have "bkgRotationAngleStep t = Finite TwoPI / Finite (real_of_int d)"
      using that init_step[of phys cfg t] unfolding ofInt_def d_def by simp
    ultimately show ?thesis unfolding bkgRotAngle_def ofInt_def by simp
  qed
  have pz: "pzCharmHad k = Finite (pzProng0 candidate + pzProng1 candidate + pzProng2 candidate)
        \<and> isRotatedCandidate k = 1"
    if "0 < r \<and> kinematicsLcToPKPi hf cfg t withMl candidate r iMass = Some k"
    using that z unfolding kinematicsLcToPKPi_def Let_def variableDefinition_def
    by (auto split: if_splits)
  show ?thesis using z tr fin pz by blast
qed

text \<open>
  The second prong of the example candidate is \<open>(3, 0, 2)\<close>; the \<open>z\<close> components of the
  prongs are 1, 2 and 3.
\<close>

theorem rotation_preserves_witness:
  "init examplePhysics exampleConfig = Inr exampleTask
   \<and> nBkgRotations exampleConfig \<noteq> - 1
   \<and> bkgRotAngle exampleTask 1 \<noteq> NonFinite
   \<and> comp2 (threeVecLcRotatedProng1 exampleTask exampleLc 1) = Finite 2
   \<and> comp0 (threeVecLcRotatedProng1 exampleTask exampleLc 1) * comp0 (threeVecLcRotatedProng1 exampleTask exampleLc 1)
     + comp1 (threeVecLcRotatedProng1 exampleTask exampleLc 1) * comp1 (threeVecLcRotatedProng1 exampleTask exampleLc 1)
     = Finite 9
   \<and> (\<exists>k. kinematicsLcToPKPi exampleHelpers exampleConfig exampleTask False exampleLc 1 PKPi = Some k
          \<and> pzCharmHad k = Finite 6 \<and> isRotatedCandidate k = 1)"
proof -
  have n: "nBkgRotations exampleConfig \<noteq> - 1" by (simp add: exampleConfig_def)
  have "kinematicsLcToPKPi exampleHelpers exampleConfig exampleTask False exampleLc 1 PKPi \<noteq> None"
    by (simp add: kinematics_None_iff exampleConfig_def exampleLc_def)
  then obtain k where k: "kinematicsLcToPKPi exampleHelpers exampleConfig exampleTask False exampleLc 1 PKPi = Some k"
    by auto
  note u = rotation_preserves [where t = exampleTask and candidate = exampleLc and r = 1 and phys = examplePhysics
      and cfg = exampleConfig and hf = exampleHelpers and withMl = False and iMass = PKPi and k = k]
  have fin: "bkgRotAngle exampleTask 1 \<noteq> NonFinite"
    using u init_example n by blast
  have z: "comp2 (threeVecLcRotatedProng1 exampleTask exampleLc 1) = Finite 2"
    using u by (simp add: exampleLc_def)
  have tr: "comp0 (threeVecLcRotatedProng1 exampleTask exampleLc 1) * comp0 (threeVecLcRotatedProng1 exampleTask exampleLc 1)
     + comp1 (threeVecLcRotatedProng1 exampleTask exampleLc 1) * comp1 (threeVecLcRotatedProng1 exampleTask exampleLc 1)
     = Finite 9"
    using u fin by (simp add: exampleLc_def)
  have pz: "pzCharmHad k = Finite 6 \<and> isRotatedCandidate k = 1"
    using u k by (simp add: exampleLc_def)
  show ?thesis using init_example n fin z tr pz k by blast
qed

section \<open>The cosines\<close>

lemma divide_divide_cfloat: "(a / b) / c = a / (c * (b :: cfloat))"
  by (cases a; cases b; cases c) (auto simp: field_simps)

lemma Mag2_randomVec: "Mag2 (randomVec (Finite phi) (Finite theta)) = Finite 1"
proof -
  have s1: "sin phi * sin phi = 1 - cos phi * cos phi"
    using sin_cos_squared_add3[of phi] by linarith
  have s2: "sin theta * sin theta = 1 - cos theta * cos theta"
    using sin_cos_squared_add3[of theta] by linarith
  have "sin theta * cos phi * (sin theta * cos phi) + sin theta * sin phi * (sin theta * sin phi)
        + cos theta * cos theta
      = (sin theta * sin theta) * (cos phi * cos phi) + (sin theta * sin theta) * (sin phi * sin phi)
        + cos theta * cos theta"
    by (simp add: mult_ac)
  also have "\<dots> = 1"
    unfolding s1 s2 by (simp add: algebra_simps)
  finally show ?thesis by (simp add: randomVec_def)
qed

lemma sqrt_25: "sqrt 25 = 5"
  using real_sqrt_abs[of 5] by simp

lemma sqrt_16_25: "sqrt (16 / 25) = 4 / 5"
  using real_sqrt_abs[of "4 / 5"] by (simp add: power2_eq_square)

lemma sqrt_25_16: "sqrt (25 / 16) = 5 / 4"
  using real_sqrt_abs[of "5 / 4"] by (simp add: power2_eq_square)

lemma sqrt_9: "sqrt 9 = 3"
  using real_sqrt_abs[of 3] by simp

lemma example_threeVecDauCM:
  "threeVecDauCM exampleKinematics = (Finite (- 3 / 4), Finite 1, Finite 0)"
  by (simp add: threeVecDauCM_def fourVecMother_def fourVecDau_def exampleKinematics_def
      variableDefinition_def sqrt_25 sqrt_16_25 Let_def)

text \<open>
  C2. With \<open>p\<close> the momentum of the probe boosted to the rest frame of the parent, the
  cosine for the helicity axis (the momentum of the parent) and for the production axis
  \<open>(py, -px, 0)\<close> of the parent is \<open>(A \<cdot> p) / (|A| |p|)\<close>, and the cosine for the beam axis
  \<open>(0, 0, 1)\<close> and for the random axis is \<open>(A \<cdot> p) / |p|\<close>; the random axis is the unit vector
  of the two sampled angles. Every evaluation that is not skipped computes these cosines.
\<close>

theorem cosines_formula:
  "cosThetaStarHelicity (cosThetaStar k phiRandom thetaRandom)
     = Dot (helicityVec k) (threeVecDauCM k) / (fsqrt (Mag2 (helicityVec k)) * fsqrt (Mag2 (threeVecDauCM k)))
   \<and> cosThetaStarProduction (cosThetaStar k phiRandom thetaRandom)
       = Dot (normalVec k) (threeVecDauCM k) / (fsqrt (Mag2 (normalVec k)) * fsqrt (Mag2 (threeVecDauCM k)))
   \<and> cosThetaStarBeam (cosThetaStar k phiRandom thetaRandom)
       = Dot beamVec (threeVecDauCM k) / fsqrt (Mag2 (threeVecDauCM k))
   \<and> cosThetaStarRandom (cosThetaStar k phiRandom thetaRandom)
       = Dot (randomVec phiRandom thetaRandom) (threeVecDauCM k) / fsqrt (Mag2 (threeVecDauCM k))
   \<and> threeVecDauCM k
       = Boost (BoostToCM (pxCharmHad k, pyCharmHad k, pzCharmHad k, invMassCharmHad k))
           (pxDau k, pyDau k, pzDau k, massDau k)
   \<and> helicityVec k = (pxCharmHad k, pyCharmHad k, pzCharmHad k)
   \<and> normalVec k = (pyCharmHad k, - pxCharmHad k, Finite 0)
   \<and> beamVec = (Finite 0, Finite 0, Finite 1)
   \<and> randomVec (Uniform gRandom n 0 TwoPI) (Uniform gRandom (n + 1) 0 PI)
       = (Finite (sin (pi * gRandom (n + 1)) * cos (2 * pi * gRandom n)),
          Finite (sin (pi * gRandom (n + 1)) * sin (2 * pi * gRandom n)),
          Finite (cos (pi * gRandom (n + 1))))
   \<and> Mag2 (randomVec (Uniform gRandom n 0 TwoPI) (Uniform gRandom (n + 1) 0 PI)) = Finite 1
   \<and> angularAnalysis cfg gRandom channel withMl k n
       = Filled (cosThetaStar k (Uniform gRandom n 0 TwoPI) (Uniform gRandom (n + 1) 0 PI))
           (fillSparses cfg channel withMl k
              (cosThetaStar k (Uniform gRandom n 0 TwoPI) (Uniform gRandom (n + 1) 0 PI)))"
proof -
  have "Mag2 (randomVec (Uniform gRandom n 0 TwoPI) (Uniform gRandom (n + 1) 0 PI)) = Finite 1"
    unfolding Uniform_def by (rule Mag2_randomVec)
  moreover have "randomVec (Uniform gRandom n 0 TwoPI) (Uniform gRandom (n + 1) 0 PI)
       = (Finite (sin (pi * gRandom (n + 1)) * cos (2 * pi * gRandom n)),
          Finite (sin (pi * gRandom (n + 1)) * sin (2 * pi * gRandom n)),
          Finite (cos (pi * gRandom (n + 1))))"
    by (simp add: randomVec_def Uniform_def TwoPI_def PI_def)
  ultimately show ?thesis
    by (simp add: cosThetaStar_def divide_divide_cfloat threeVecDauCM_def fourVecMother_def
        fourVecDau_def helicityVec_def normalVec_def beamVec_def angularAnalysis_def Let_def)
qed

text \<open>
  For the example parent of momentum \<open>(3, 0, 0)\<close> and mass 4 and the massless probe of
  momentum \<open>(0, 1, 0)\<close> the probe has momentum \<open>(-3/4, 1, 0)\<close> in the rest frame; with both
  draws 1/2 the random axis is \<open>(-1, 0, 0)\<close>.
\<close>

theorem cosines_formula_witness:
  "cosThetaStarHelicity (cosThetaStar exampleKinematics (Uniform exampleRandom 0 0 TwoPI) (Uniform exampleRandom 1 0 PI))
     = Finite (- 3 / 5)
   \<and> cosThetaStarProduction (cosThetaStar exampleKinematics (Uniform exampleRandom 0 0 TwoPI) (Uniform exampleRandom 1 0 PI))
     = Finite (- 4 / 5)
   \<and> cosThetaStarBeam (cosThetaStar exampleKinematics (Uniform exampleRandom 0 0 TwoPI) (Uniform exampleRandom 1 0 PI))
     = Finite 0
   \<and> cosThetaStarRandom (cosThetaStar exampleKinematics (Uniform exampleRandom 0 0 TwoPI) (Uniform exampleRandom 1 0 PI))
     = Finite (3 / 5)"
proof -
  have h: "helicityVec exampleKinematics = (Finite 3, Finite 0, Finite 0)"
    by (simp add: helicityVec_def fourVecMother_def exampleKinematics_def variableDefinition_def)
  have nv: "normalVec exampleKinematics = (Finite 0, Finite (- 3), Finite 0)"
    by (simp add: normalVec_def exampleKinematics_def variableDefinition_def)
  have r: "randomVec (Uniform exampleRandom 0 0 TwoPI) (Uniform exampleRandom 1 0 PI)
      = (Finite (- 1), Finite 0, Finite 0)"
    by (simp add: randomVec_def Uniform_def exampleRandom_def TwoPI_def PI_def)
  show ?thesis
    using cosines_formula [of exampleKinematics "Uniform exampleRandom 0 0 TwoPI" "Uniform exampleRandom 1 0 PI"
        exampleRandom 0 exampleConfig LcToPKPi False]
    unfolding h nv r example_threeVecDauCM
    by (simp add: beamVec_def sqrt_25_16 sqrt_9)
qed

section \<open>A candidate with ML\<close>

lemma runLc_fills:
  assumes "nMassHypos t = 2"
    and "selectionFlagLcToPKPi cfg \<le> isSelLcToPKPi c"
    and "isSelLcToPiKP c < selectionFlagLcToPKPi cfg"
  shows "\<exists>k. kinematicsLcToPKPi hf cfg t withMl c r PKPi = Some k
           \<and> fillsOf (fst (runPolarisationAnalysis_LcToPKPi hf cfg t gRandom withMl c r n))
               = fillSparses cfg LcToPKPi withMl k
                   (cosThetaStar k (Uniform gRandom n 0 TwoPI) (Uniform gRandom (n + 1) 0 PI))"
proof -
  have "kinematicsLcToPKPi hf cfg t withMl c r PKPi \<noteq> None"
    using assms(2) by (simp add: kinematics_None_iff)
  then obtain k where k: "kinematicsLcToPKPi hf cfg t withMl c r PKPi = Some k" by auto
  have no: "kinematicsLcToPKPi hf cfg t withMl c r PiKP = None"
    using assms(3) by (simp add: kinematics_None_iff PKPi_def PiKP_def)
  have "fillsOf (fst (runPolarisationAnalysis_LcToPKPi hf cfg t gRandom withMl c r n))
               = fillSparses cfg LcToPKPi withMl k
                   (cosThetaStar k (Uniform gRandom n 0 TwoPI) (Uniform gRandom (n + 1) 0 PI))"
    unfolding runPolarisationAnalysis_LcToPKPi_def assms(1) upt_two
    using k no by (simp add: PKPi_def PiKP_def Let_def angularAnalysis_def)
  with k show ?thesis by blast
qed

lemma helicity_count_fillSparses:
  "length (filter (\<lambda>(name, vs). name = ''hSparseCharmPolarisationHelicity'' \<and> last vs = Finite 0)
            (fillSparses cfg LcToPKPi withMl k cs))
     = (if activateTHnSparseCosThStarHelicity cfg \<and> isRotatedCandidate k = 0 then 1 else 0)"
  unfolding fillSparses_def fill_def Let_def by (simp add: ofInt_def)

lemma helicity_total_fillSparses:
  "length (filter (\<lambda>(name, vs). name = ''hSparseCharmPolarisationHelicity'')
            (fillSparses cfg LcToPKPi withMl k cs))
     = (if activateTHnSparseCosThStarHelicity cfg then 1 else 0)"
  unfolding fillSparses_def fill_def Let_def by simp

lemma processLc_fills:
  "fillsOf (fst (processLc hf cfg t gRandom withMl c n))
     = fillsOf (fst (runPolarisationAnalysis_LcToPKPi hf cfg t gRandom withMl c 0 n))
       @ fillsOf (fst (forEach (runPolarisationAnalysis_LcToPKPi hf cfg t gRandom withMl c)
                         [1 .. sint (nBkgRotations cfg)]
                         (snd (runPolarisationAnalysis_LcToPKPi hf cfg t gRandom withMl c 0 n))))"
  unfolding processLc_unfold Let_def by (simp add: fillsOf_append)

lemma helicity_unrotated_count:
  assumes "nMassHypos t = 2"
    and "selectionFlagLcToPKPi cfg \<le> isSelLcToPKPi c"
    and "isSelLcToPiKP c < selectionFlagLcToPKPi cfg"
    and "activateTHnSparseCosThStarHelicity cfg"
  shows "length (filter (\<lambda>(name, vs). name = ''hSparseCharmPolarisationHelicity'' \<and> last vs = Finite 0)
            (fillsOf (fst (processLc hf cfg t gRandom withMl c n)))) = 1"
proof -
  let ?P = "\<lambda>(name, vs). name = ''hSparseCharmPolarisationHelicity'' \<and> last vs = Finite (0::real)"
  have first: "length (filter ?P (fillsOf (fst (runPolarisationAnalysis_LcToPKPi hf cfg t gRandom withMl c 0 n)))) = 1"
  proof -
    from runLc_fills[OF assms(1-3), of hf withMl 0 gRandom n] obtain k where
      k: "kinematicsLcToPKPi hf cfg t withMl c 0 PKPi = Some k"
      and f: "fillsOf (fst (runPolarisationAnalysis_LcToPKPi hf cfg t gRandom withMl c 0 n))
               = fillSparses cfg LcToPKPi withMl k
                   (cosThetaStar k (Uniform gRandom n 0 TwoPI) (Uniform gRandom (n + 1) 0 PI))"
      by blast
    show ?thesis
      unfolding f helicity_count_fillSparses using kinematicsLc_fields(1)[OF k] assms(4) by simp
  qed
  have rest: "filter ?P (fillsOf (fst (forEach (runPolarisationAnalysis_LcToPKPi hf cfg t gRandom withMl c)
                         [1 .. sint (nBkgRotations cfg)] m))) = []" for m
  proof (rule forEach_fills_filter)
    fix r n' assume "r \<in> set [1 .. sint (nBkgRotations cfg)]"
    then have r: "0 < r" by simp
    from runLc_fills[OF assms(1-3), of hf withMl r gRandom n'] obtain k where
      k: "kinematicsLcToPKPi hf cfg t withMl c r PKPi = Some k"
      and f: "fillsOf (fst (runPolarisationAnalysis_LcToPKPi hf cfg t gRandom withMl c r n'))
               = fillSparses cfg LcToPKPi withMl k
                   (cosThetaStar k (Uniform gRandom n' 0 TwoPI) (Uniform gRandom (n' + 1) 0 PI))"
      by blast
    have "length (filter ?P (fillsOf (fst (runPolarisationAnalysis_LcToPKPi hf cfg t gRandom withMl c r n')))) = 0"
      unfolding f helicity_count_fillSparses using kinematicsLc_fields(1)[OF k] r by simp
    then show "filter ?P (fillsOf (fst (runPolarisationAnalysis_LcToPKPi hf cfg t gRandom withMl c r n'))) = []"
      by simp
  qed
  show ?thesis
    unfolding processLc_fills filter_append rest using first by simp
qed

lemma helicity_total_count:
  assumes "nMassHypos t = 2"
    and "selectionFlagLcToPKPi cfg \<le> isSelLcToPKPi c"
    and "isSelLcToPiKP c < selectionFlagLcToPKPi cfg"
    and "activateTHnSparseCosThStarHelicity cfg"
    and "sint (nBkgRotations cfg) \<le> 0"
  shows "length (filter (\<lambda>(name, vs). name = ''hSparseCharmPolarisationHelicity'')
            (fillsOf (fst (processLc hf cfg t gRandom withMl c n)))) = 1"
proof -
  have e: "[1 .. sint (nBkgRotations cfg)] = []" using assms(5) by simp
  from runLc_fills[OF assms(1-3), of hf withMl 0 gRandom n] obtain k where
      f: "fillsOf (fst (runPolarisationAnalysis_LcToPKPi hf cfg t gRandom withMl c 0 n))
               = fillSparses cfg LcToPKPi withMl k
                   (cosThetaStar k (Uniform gRandom n 0 TwoPI) (Uniform gRandom (n + 1) 0 PI))"
    by blast
  show ?thesis
    unfolding processLc_fills e f using helicity_total_fillSparses[of cfg withMl k] assms(4) by simp
qed

lemma processLc_fill_values:
  assumes "(name, vs) \<in> set (fillsOf (fst (processLc hf cfg t gRandom withMl c n)))"
  shows "\<exists>iMass r k cs. kinematicsLcToPKPi hf cfg t withMl c r iMass = Some k
           \<and> (name, vs) \<in> set (fillSparses cfg LcToPKPi withMl k cs)"
proof -
  from fillsOf_member[OF assms] obtain iMass r cs fs where
    e: "(iMass, r, Filled cs fs) \<in> set (fst (processLc hf cfg t gRandom withMl c n))"
    and f: "(name, vs) \<in> set fs" by blast
  from processLc_entries[OF e] obtain n' where
    o: "Filled cs fs = (case kinematicsLcToPKPi hf cfg t withMl c r iMass of
              None \<Rightarrow> Skipped
            | Some k \<Rightarrow> angularAnalysis cfg gRandom LcToPKPi withMl k n')"
    by blast
  then obtain k where k: "kinematicsLcToPKPi hf cfg t withMl c r iMass = Some k"
    by (cases "kinematicsLcToPKPi hf cfg t withMl c r iMass") auto
  from o k have "angularAnalysis cfg gRandom LcToPKPi withMl k n' = Filled cs fs" by simp
  from angularAnalysis_Filled(2)[OF this] f k show ?thesis by blast
qed

lemma ml_sentinel:
  assumes "isSelLcToPiKP c < selectionFlagLcToPKPi cfg"
    and "length (mlProbLcToPKPi c) \<noteq> 3"
    and "(name, vs) \<in> set (fillsOf (fst (processLc hf cfg t gRandom True c n)))"
  shows "vs ! 5 = Finite (- 1) \<and> vs ! 6 = Finite (- 1)"
proof -
  from processLc_fill_values[OF assms(3)] obtain iMass r k cs where
    k: "kinematicsLcToPKPi hf cfg t True c r iMass = Some k"
    and f: "(name, vs) \<in> set (fillSparses cfg LcToPKPi True k cs)" by blast
  have "iMass = PKPi"
    using k kinematics_None_iff[of hf cfg t True c r iMass] assms(1) kinematicsLc_fields(3)[OF k]
    by auto
  then have "outputMl k = [Finite (- 1), Finite (- 1), Finite (- 1)]"
    using kinematicsLc_fields(2)[OF k] assms(2) by (simp add: mlScores_def)
  then show ?thesis using fillSparses_values[OF f] by simp
qed

text \<open>
  C4, as the code has it. In the mode with ML and with the helicity histogram enabled, a
  \<open>\<Lambda>c\<close> candidate that is selected as pK\<pi> only fills exactly one entry of the helicity
  histogram with the rotation flag 0, and exactly one entry of it at all when no rotation
  is configured. When its probability vector does not have size 3 the entries are
  filled all the same, with \<open>-1\<close> for the two ML scores.
\<close>

theorem ml_single_candidate:
  assumes "init phys cfg = Inr t" and "doprocessLcToPKPiWithMl cfg"
    and "selectionFlagLcToPKPi cfg \<le> isSelLcToPKPi candidate"
    and "isSelLcToPiKP candidate < selectionFlagLcToPKPi cfg"
    and "activateTHnSparseCosThStarHelicity cfg"
    and "fills = fillsOf (fst (processLcToPKPiWithMl hf cfg t gRandom candidate n))"
  shows "length (filter (\<lambda>(name, vs). name = ''hSparseCharmPolarisationHelicity'' \<and> last vs = Finite 0)
                   fills) = 1
       \<and> (sint (nBkgRotations cfg) \<le> 0 \<longrightarrow>
            length (filter (\<lambda>(name, vs). name = ''hSparseCharmPolarisationHelicity'') fills) = 1)
       \<and> (length (mlProbLcToPKPi candidate) \<noteq> 3 \<longrightarrow>
            fills \<noteq> [] \<and> (\<forall>(name, vs) \<in> set fills. vs ! 5 = Finite (- 1) \<and> vs ! 6 = Finite (- 1)))"
proof -
  have h: "nMassHypos t = 2" using init_Lc_hypos[OF assms(1)] assms(2) by simp
  have p: "processLcToPKPiWithMl hf cfg t gRandom candidate n = processLc hf cfg t gRandom True candidate n"
    by (simp add: processLc_def)
  have one: "length (filter (\<lambda>(name, vs). name = ''hSparseCharmPolarisationHelicity'' \<and> last vs = Finite 0)
                   fills) = 1"
    unfolding assms(6) p by (rule helicity_unrotated_count[OF h assms(3-5)])
  then have ne: "fills \<noteq> []" by auto
  have tot: "length (filter (\<lambda>(name, vs). name = ''hSparseCharmPolarisationHelicity'') fills) = 1"
    if "sint (nBkgRotations cfg) \<le> 0"
    unfolding assms(6) p by (rule helicity_total_count[OF h assms(3-5) that])
  have ml: "\<forall>(name, vs) \<in> set fills. vs ! 5 = Finite (- 1) \<and> vs ! 6 = Finite (- 1)"
    if "length (mlProbLcToPKPi candidate) \<noteq> 3"
    using ml_sentinel[OF assms(4) that] unfolding assms(6) p by blast
  show ?thesis using one ne tot ml by blast
qed

text \<open>
  The example candidate has an empty probability vector.
\<close>

theorem ml_single_candidate_witness:
  "init examplePhysics (exampleConfig \<lparr> doprocessLcToPKPi := False, doprocessLcToPKPiWithMl := True \<rparr>)
     = Inr exampleTask
   \<and> length (mlProbLcToPKPi exampleLc) \<noteq> 3
   \<and> length (filter (\<lambda>(name, vs). name = ''hSparseCharmPolarisationHelicity'' \<and> last vs = Finite 0)
        (fillsOf (fst (processLcToPKPiWithMl exampleHelpers
           (exampleConfig \<lparr> doprocessLcToPKPi := False, doprocessLcToPKPiWithMl := True \<rparr>)
           exampleTask exampleRandom exampleLc 0)))) = 1
   \<and> fillsOf (fst (processLcToPKPiWithMl exampleHelpers
           (exampleConfig \<lparr> doprocessLcToPKPi := False, doprocessLcToPKPiWithMl := True \<rparr>)
           exampleTask exampleRandom exampleLc 0)) \<noteq> []
   \<and> snd (hd (fillsOf (fst (processLcToPKPiWithMl exampleHelpers
           (exampleConfig \<lparr> doprocessLcToPKPi := False, doprocessLcToPKPiWithMl := True \<rparr>)
           exampleTask exampleRandom exampleLc 0)))) ! 5 = Finite (- 1)
   \<and> snd (hd (fillsOf (fst (processLcToPKPiWithMl exampleHelpers
           (exampleConfig \<lparr> doprocessLcToPKPi := False, doprocessLcToPKPiWithMl := True \<rparr>)
           exampleTask exampleRandom exampleLc 0)))) ! 6 = Finite (- 1)"
proof -
  define cfg where "cfg = exampleConfig \<lparr> doprocessLcToPKPi := False, doprocessLcToPKPiWithMl := True \<rparr>"
  define fills where "fills = fillsOf (fst (processLcToPKPiWithMl exampleHelpers cfg exampleTask exampleRandom exampleLc 0))"
  have i: "init examplePhysics cfg = Inr exampleTask"
    unfolding cfg_def by (rule init_example_ml)
  have c: "doprocessLcToPKPiWithMl cfg" "selectionFlagLcToPKPi cfg \<le> isSelLcToPKPi exampleLc"
    "isSelLcToPiKP exampleLc < selectionFlagLcToPKPi cfg" "activateTHnSparseCosThStarHelicity cfg"
    by (simp_all add: cfg_def exampleConfig_def exampleLc_def)
  have l: "length (mlProbLcToPKPi exampleLc) \<noteq> 3" by (simp add: exampleLc_def)
  note u = ml_single_candidate [OF i c fills_def]
  from u have one: "length (filter (\<lambda>(name, vs). name = ''hSparseCharmPolarisationHelicity'' \<and> last vs = Finite 0)
                   fills) = 1" by blast
  from u l have ne: "fills \<noteq> []" by blast
  from u l have ball: "\<forall>(name, vs) \<in> set fills. vs ! 5 = Finite (- 1) \<and> vs ! 6 = Finite (- 1)" by blast
  from ne have "hd fills \<in> set fills" by simp
  with ball have v: "snd (hd fills) ! 5 = Finite (- 1) \<and> snd (hd fills) ! 6 = Finite (- 1)"
    by (auto simp: case_prod_beta)
  show ?thesis
    using i l one ne v unfolding fills_def cfg_def by blast
qed

text \<open>
  C4, as the claim has it, fails: the example candidate has a probability vector of a
  size other than 3, and the process function with ML fills histograms for it.
\<close>

theorem ml_missing_scores_counterexample:
  "length (mlProbLcToPKPi exampleLc) \<noteq> 3
   \<and> fillsOf (fst (processLcToPKPiWithMl exampleHelpers
           (exampleConfig \<lparr> doprocessLcToPKPi := False, doprocessLcToPKPiWithMl := True \<rparr>)
           exampleTask exampleRandom exampleLc 0)) \<noteq> []"
proof -
  define cfg where "cfg = exampleConfig \<lparr> doprocessLcToPKPi := False, doprocessLcToPKPiWithMl := True \<rparr>"
  have c: "selectionFlagLcToPKPi cfg \<le> isSelLcToPKPi exampleLc"
    "isSelLcToPiKP exampleLc < selectionFlagLcToPKPi cfg" "activateTHnSparseCosThStarHelicity cfg"
    by (simp_all add: cfg_def exampleConfig_def exampleLc_def)
  have h: "nMassHypos exampleTask = 2" by (simp add: exampleTask_def)
  have "length (filter (\<lambda>(name, vs). name = ''hSparseCharmPolarisationHelicity'' \<and> last vs = Finite 0)
            (fillsOf (fst (processLc exampleHelpers cfg exampleTask exampleRandom True exampleLc 0)))) = 1"
    by (rule helicity_unrotated_count[OF h c])
  then have "fillsOf (fst (processLc exampleHelpers cfg exampleTask exampleRandom True exampleLc 0)) \<noteq> []"
    by auto
  moreover have "length (mlProbLcToPKPi exampleLc) \<noteq> 3" by (simp add: exampleLc_def)
  ultimately show ?thesis unfolding cfg_def processLc_def by simp
qed

end
